theory Spec2Isabelle
  imports Main
begin

section \<open>Errors and message formatting\<close>

text \<open>
  A Go \<open>error\<close> is modelled by the shape the code builds it with: a plain message
  (\<open>errors.New\<close>, \<open>xerrors.New\<close>, \<open>xerrors.Errorf\<close> without \<open>%w\<close>, and the
  errors of the libraries) or a message wrapped around a cause (\<open>xerrors.Errorf\<close>
  with a format ending in \<open>: %w\<close>). \<open>Error\<close> is the method \<open>Error()\<close>; the call
  frames \<open>xerrors\<close> records beside the message are not part of it and are left out.
  A result of type \<open>error\<close> is an \<open>error option\<close>, \<open>None\<close> being \<open>nil\<close>.
\<close>

datatype error = ErrorString string | WrapError string error

fun Error :: "error \<Rightarrow> string" where
  "Error (ErrorString s) = s"
| "Error (WrapError msg err) = msg @ '': '' @ Error err"

text \<open>The verb \<open>%d\<close> on a length: decimal digits.\<close>

fun fmt_d :: "nat \<Rightarrow> string" where
  "fmt_d n =
     (if n < 10 then [''0123456789'' ! n]
      else fmt_d (n div 10) @ [''0123456789'' ! (n mod 10)])"

declare fmt_d.simps [simp del]

text \<open>
  The verb \<open>%q\<close> on a string (and on an error, through its message): the double-quoted
  Go literal of \<open>strconv.Quote\<close>. Bytes of the 7-bit range are escaped as Go does;
  a byte above \<open>0x7F\<close> is copied, which is what Go does with the bytes of a printable
  character.
\<close>

definition hex2 :: "nat \<Rightarrow> string" where
  "hex2 n = [''0123456789abcdef'' ! (n div 16), ''0123456789abcdef'' ! (n mod 16)]"

definition quote_byte :: "char \<Rightarrow> string" where
  "quote_byte c =
     (if c = CHR 0x22 then [CHR 0x5C, CHR 0x22]
      else if c = CHR 0x5C then [CHR 0x5C, CHR 0x5C]
      else if c = CHR 0x07 then [CHR 0x5C, CHR ''a'']
      else if c = CHR 0x08 then [CHR 0x5C, CHR ''b'']
      else if c = CHR 0x0C then [CHR 0x5C, CHR ''f'']
      else if c = CHR 0x0A then [CHR 0x5C, CHR ''n'']
      else if c = CHR 0x0D then [CHR 0x5C, CHR ''r'']
      else if c = CHR 0x09 then [CHR 0x5C, CHR ''t'']
      else if c = CHR 0x0B then [CHR 0x5C, CHR ''v'']
      else if (of_char c :: nat) < 0x20 \<or> c = CHR 0x7F
        then [CHR 0x5C, CHR ''x''] @ hex2 (of_char c)
      else [c])"

definition fmt_q :: "string \<Rightarrow> string" where
  "fmt_q s = [CHR 0x22] @ concat (map quote_byte s) @ [CHR 0x22]"

section \<open>The libraries the validators call\<close>

text \<open>
  The validators call four functions of the Go standard library. They are parameters
  of the model, collected in the record \<open>stdlib\<close>; the theorems hold for every value
  of it.
  \<^item> \<open>base64_DecodeString\<close> is \<open>base64.StdEncoding.DecodeString\<close>.
  \<^item> \<open>url_Parse\<close> is \<open>url.Parse\<close>; of the parsed URL the code reads \<open>Scheme\<close> and
    \<open>Host\<close>.
  \<^item> \<open>Cookie_String\<close> is \<open>(&http.Cookie{Name: name}).String()\<close> as a function of the
    name.
  \<^item> \<open>os_Open\<close> is \<open>os.Open\<close> followed by \<open>Close\<close>: the error of opening the path,
    which depends on the file system.
\<close>

type_synonym bytes = "char list"

record URL =
  Scheme :: string
  Opaque :: string
  Host :: string
  Path :: string
  RawQuery :: string
  Fragment :: string

record stdlib =
  base64_DecodeString :: "string \<Rightarrow> error + bytes"
  url_Parse :: "string \<Rightarrow> error + URL"
  Cookie_String :: "string \<Rightarrow> string"
  os_Open :: "string \<Rightarrow> error option"

section \<open>The configuration sections\<close>

text \<open>
  One record per struct, with the fields in the order of the source. A
  \<open>time.Duration\<close> is a number of nanoseconds; the code only stores and compares
  durations, so they are integers here. A slice the code only reads or leaves \<open>nil\<close>
  is an optional list (\<open>None\<close> is \<open>nil\<close>). The one slice the code assigns,
  \<open>decodedSecret\<close>, is a reference into a store of byte arrays, so that what a
  caller can reach through it is part of the model.
\<close>

type_synonym Duration = int

definition Second :: Duration where
  "Second = 1000000000"

definition Hour :: Duration where
  "Hour = 3600 * Second"

type_synonym 'a slice = "'a list option"

type_synonym addr = nat

type_synonym store = "bytes list"

record TimeoutConfig =
  Write :: Duration
  Read :: Duration
  Shutdown :: Duration

record ServerConfig =
  Port :: int
  TimeoutConfig :: TimeoutConfig

record ProviderConfig =
  ProviderType :: string
  ProviderSlug :: string
  Scope :: string
  ProviderURLExternal :: string
  ProviderURLInternal :: string
  ProviderSkipAuthPreflight :: string

record CookieConfig =
  Name :: string
  Secret :: string
  Expire :: Duration
  Domain :: string
  Secure :: bool
  HTTPOnly :: bool
  decodedSecret :: "addr option"

record TTLConfig =
  Lifetime :: Duration
  Valid :: Duration
  GracePeriod :: Duration

record SessionConfig =
  CookieConfig :: CookieConfig
  TTLConfig :: TTLConfig

record ClientConfig =
  ID :: string
  Secret :: string

record StatsdConfig =
  Port :: int
  Host :: string

record MetricsConfig =
  StatsdConfig :: StatsdConfig

record LoggingConfig =
  Enable :: bool
  Level :: string

record EmailConfig =
  AllowedDomains :: "string slice"
  AllowedAddresses :: "string slice"

record DefaultConfig =
  EmailConfig :: EmailConfig
  AllowedGroups :: "string slice"
  ProviderSlug :: string
  Timeout :: Duration
  ResetDeadline :: Duration

record UpstreamConfigs =
  DefaultConfig :: DefaultConfig
  ConfigsFile :: string
  testTemplateVars :: "(string \<times> string) list option"
  upstreamConfigs :: "addr slice"
  Cluster :: string
  Scheme :: string

record RequestSignerConfig =
  Key :: string

record Configuration =
  ServerConfig :: ServerConfig
  ProviderConfig :: ProviderConfig
  ClientConfig :: ClientConfig
  SessionConfig :: SessionConfig
  UpstreamConfigs :: UpstreamConfigs
  MetricsConfig :: MetricsConfig
  LoggingConfig :: LoggingConfig
  RequestSignerConfig :: RequestSignerConfig

section \<open>DefaultProxyConfig\<close>

text \<open>Fields the composite literal leaves out have Go's zero value.\<close>

definition DefaultProxyConfig :: Configuration where
  "DefaultProxyConfig =
     \<lparr>ServerConfig =
        \<lparr>ServerConfig.Port = 4180,
         TimeoutConfig = \<lparr>Write = 30 * Second, Read = 30 * Second, Shutdown = 30 * Second\<rparr>\<rparr>,
      ProviderConfig =
        \<lparr>ProviderType = ''sso'',
         ProviderConfig.ProviderSlug = ''google'',
         Scope = '''',
         ProviderURLExternal = '''',
         ProviderURLInternal = '''',
         ProviderSkipAuthPreflight = ''''\<rparr>,
      ClientConfig = \<lparr>ID = '''', ClientConfig.Secret = ''''\<rparr>,
      SessionConfig =
        \<lparr>CookieConfig =
           \<lparr>Name = ''_sso_proxy'',
            CookieConfig.Secret = '''',
            Expire = 168 * Hour,
            Domain = '''',
            Secure = True,
            HTTPOnly = True,
            decodedSecret = None\<rparr>,
         TTLConfig = \<lparr>Lifetime = 720 * Hour, Valid = 60 * Second, GracePeriod = 3 * Hour\<rparr>\<rparr>,
      UpstreamConfigs =
        \<lparr>DefaultConfig =
           \<lparr>EmailConfig = \<lparr>AllowedDomains = None, AllowedAddresses = None\<rparr>,
            AllowedGroups = None,
            DefaultConfig.ProviderSlug = '''',
            Timeout = 10 * Second,
            ResetDeadline = 60 * Second\<rparr>,
         ConfigsFile = '''',
         testTemplateVars = None,
         upstreamConfigs = None,
         Cluster = '''',
         UpstreamConfigs.Scheme = ''https''\<rparr>,
      MetricsConfig = \<lparr>StatsdConfig = \<lparr>StatsdConfig.Port = 8125, StatsdConfig.Host = ''localhost''\<rparr>\<rparr>,
      LoggingConfig = \<lparr>Enable = True, Level = ''INFO''\<rparr>,
      RequestSignerConfig = \<lparr>Key = ''''\<rparr>\<rparr>"

section \<open>The validators\<close>

definition TimeoutConfig_Validate :: "TimeoutConfig \<Rightarrow> error option" where
  "TimeoutConfig_Validate tc = None"

definition ServerConfig_Validate :: "ServerConfig \<Rightarrow> error option" where
  "ServerConfig_Validate sc =
     (if ServerConfig.Port sc = 0 then Some (ErrorString ''no server.port configured'')
      else case TimeoutConfig_Validate (TimeoutConfig sc) of
        Some err \<Rightarrow> Some (WrapError ''invalid server.timeout config'' err)
      | None \<Rightarrow> None)"

text \<open>
  The two URL blocks of \<open>ProviderConfig.Validate\<close>, each an \<open>if\<close>/\<open>else\<close> that
  either returns an error or falls through to the next statement.
\<close>

definition check_url_external :: "stdlib \<Rightarrow> ProviderConfig \<Rightarrow> error option" where
  "check_url_external lib pc =
     (if ProviderURLExternal pc = ''''
      then Some (ErrorString (''invalid provider.url_external: '' @ fmt_q (ProviderURLExternal pc)))
      else case url_Parse lib (ProviderURLExternal pc) of
        Inl err \<Rightarrow> Some err
      | Inr providerURLExternal \<Rightarrow>
          if URL.Scheme providerURLExternal = '''' \<or> URL.Host providerURLExternal = ''''
          then Some (ErrorString ''provider.url_external must include scheme and host'')
          else None)"

definition check_url_internal :: "stdlib \<Rightarrow> ProviderConfig \<Rightarrow> error option" where
  "check_url_internal lib pc =
     (if ProviderURLInternal pc = ''''
      then Some (ErrorString (''invalid provider.url_internal: '' @ fmt_q (ProviderURLInternal pc)))
      else case url_Parse lib (ProviderURLInternal pc) of
        Inl err \<Rightarrow>
          Some (ErrorString (''invalid pc.url_internal configured: '' @ fmt_q (Error err)))
      | Inr providerURLInternal \<Rightarrow>
          if URL.Scheme providerURLInternal = '''' \<or> URL.Host providerURLInternal = ''''
          then Some (ErrorString ''proxy provider url must include scheme and host'')
          else None)"

definition ProviderConfig_Validate :: "stdlib \<Rightarrow> ProviderConfig \<Rightarrow> error option" where
  "ProviderConfig_Validate lib pc =
     (if ProviderType pc = ''''
      then Some (ErrorString (''invalid provider.type: '' @ fmt_q (ProviderType pc)))
      else if ProviderConfig.ProviderSlug pc = ''''
      then Some (ErrorString (''invalid provider.slug: '' @ fmt_q (ProviderConfig.ProviderSlug pc)))
      else case check_url_external lib pc of
        Some err \<Rightarrow> Some err
      | None \<Rightarrow> check_url_internal lib pc)"

text \<open>
  \<open>CookieConfig.Validate\<close> has a value receiver: it runs on its own copy \<open>cc\<close> of
  the caller's struct. \<open>CookieConfig_Validate_run\<close> is the body, from the store and
  the copy at entry to the returned error, the store and the copy at exit.
  \<open>DecodeString\<close> returns a fresh byte array, allocated in the store; the loop over
  \<open>[]int{32, 64}\<close> is a fold. \<open>CookieConfig_Validate\<close> is the call as the caller
  sees it: the error comes back, the copy is dropped. The error does not depend on
  the store the body starts from, so the call is written from the empty one.
\<close>

definition alloc :: "store \<Rightarrow> bytes \<Rightarrow> addr \<times> store" where
  "alloc h bs = (length h, h @ [bs])"

definition CookieConfig_Validate_run ::
    "stdlib \<Rightarrow> store \<Rightarrow> CookieConfig \<Rightarrow> error option \<times> store \<times> CookieConfig" where
  "CookieConfig_Validate_run lib h cc =
     (if CookieConfig.Secret cc = ''''
      then (Some (ErrorString ''no cookie.secret configured''), h, cc)
      else case base64_DecodeString lib (CookieConfig.Secret cc) of
        Inl err \<Rightarrow>
          (Some (ErrorString
             (''invalid cookie.secret configured; expected base64-encoded bytes, as from `openssl rand 32 -base64`: ''
                @ fmt_q (Error err))), h, cc)
      | Inr bs \<Rightarrow>
          (let (decodedCookieSecret, h1) = alloc h bs;
               validCookieSecretLength =
                 fold (\<lambda>i v. if length (h1 ! decodedCookieSecret) = i then True else v)
                   [32, 64] False
           in if validCookieSecretLength
              then (let cc1 = cc\<lparr>decodedSecret := Some decodedCookieSecret\<rparr>
                    in if Cookie_String lib (Name cc1) = ''''
                       then (Some (ErrorString (''invalid cc.name: '' @ fmt_q (Name cc1))), h1, cc1)
                       else (None, h1, cc1))
              else (Some (ErrorString
                      (''Invalid value for cookie.secret; must decode to 32 or 64 bytes, but decoded to ''
                         @ fmt_d (length (h1 ! decodedCookieSecret)) @ '' bytes'')), h1, cc)))"

definition CookieConfig_Validate :: "stdlib \<Rightarrow> CookieConfig \<Rightarrow> error option" where
  "CookieConfig_Validate lib cc = fst (CookieConfig_Validate_run lib [] cc)"

definition TTLConfig_Validate :: "TTLConfig \<Rightarrow> error option" where
  "TTLConfig_Validate ttlc = None"

definition SessionConfig_Validate :: "stdlib \<Rightarrow> SessionConfig \<Rightarrow> error option" where
  "SessionConfig_Validate lib sc =
     (case CookieConfig_Validate lib (CookieConfig sc) of
        Some err \<Rightarrow> Some (WrapError ''invalid session.cookie config'' err)
      | None \<Rightarrow>
          (case TTLConfig_Validate (TTLConfig sc) of
             Some err \<Rightarrow> Some (WrapError ''invalid session.ttl config'' err)
           | None \<Rightarrow> None))"

definition ClientConfig_Validate :: "ClientConfig \<Rightarrow> error option" where
  "ClientConfig_Validate cc =
     (if ID cc = '''' then Some (ErrorString ''no client.id configured'')
      else if ClientConfig.Secret cc = '''' then Some (ErrorString ''no client.secret configured'')
      else None)"

definition StatsdConfig_Validate :: "StatsdConfig \<Rightarrow> error option" where
  "StatsdConfig_Validate sc =
     (if StatsdConfig.Host sc = '''' then Some (ErrorString ''no statsd.host configured'')
      else if StatsdConfig.Port sc = 0 then Some (ErrorString '' no statsd.port configured'')
      else None)"

definition MetricsConfig_Validate :: "MetricsConfig \<Rightarrow> error option" where
  "MetricsConfig_Validate mc =
     (case StatsdConfig_Validate (StatsdConfig mc) of
        Some err \<Rightarrow> Some (WrapError ''invalid metrics.statsd config'' err)
      | None \<Rightarrow> None)"

definition LoggingConfig_Validate :: "LoggingConfig \<Rightarrow> error option" where
  "LoggingConfig_Validate lc = None"

definition UpstreamConfigs_Validate :: "stdlib \<Rightarrow> UpstreamConfigs \<Rightarrow> error option" where
  "UpstreamConfigs_Validate lib uc =
     (case (if ConfigsFile uc = '''' then None else os_Open lib (ConfigsFile uc)) of
        Some err \<Rightarrow> Some (WrapError ''invalid upstream.config filepath'' err)
      | None \<Rightarrow>
          if Cluster uc = '''' then Some (ErrorString ''no upstream.config cluster configured'')
          else None)"

definition DefaultConfig_Validate :: "DefaultConfig \<Rightarrow> error option" where
  "DefaultConfig_Validate dc = None"

definition EmailConfig_Validate :: "EmailConfig \<Rightarrow> error option" where
  "EmailConfig_Validate ec = None"

definition RequestSignerConfig_Validate :: "RequestSignerConfig \<Rightarrow> error option" where
  "RequestSignerConfig_Validate rsc = None"

text \<open>
  \<open>Configuration.Validate\<close>: the eight sections in the order of the source, each
  failure wrapped with the message the source writes at that place.
\<close>

definition Configuration_Validate :: "stdlib \<Rightarrow> Configuration \<Rightarrow> error option" where
  "Configuration_Validate lib c =
     (case ServerConfig_Validate (ServerConfig c) of
        Some err \<Rightarrow> Some (WrapError ''invalid server config'' err)
      | None \<Rightarrow>
     (case ProviderConfig_Validate lib (ProviderConfig c) of
        Some err \<Rightarrow> Some (WrapError ''invalid provider config'' err)
      | None \<Rightarrow>
     (case SessionConfig_Validate lib (SessionConfig c) of
        Some err \<Rightarrow> Some (WrapError ''invalid session config'' err)
      | None \<Rightarrow>
     (case ClientConfig_Validate (ClientConfig c) of
        Some err \<Rightarrow> Some (WrapError ''invalid session config'' err)
      | None \<Rightarrow>
     (case UpstreamConfigs_Validate lib (UpstreamConfigs c) of
        Some err \<Rightarrow> Some (WrapError ''invalid upstream config'' err)
      | None \<Rightarrow>
     (case MetricsConfig_Validate (MetricsConfig c) of
        Some err \<Rightarrow> Some (WrapError ''invalid metrics config'' err)
      | None \<Rightarrow>
     (case LoggingConfig_Validate (LoggingConfig c) of
        Some err \<Rightarrow> Some (WrapError ''invalid metrics config'' err)
      | None \<Rightarrow>
     (case RequestSignerConfig_Validate (RequestSignerConfig c) of
        Some err \<Rightarrow> Some (WrapError ''invalid metrics config'' err)
      | None \<Rightarrow> None))))))))"

section \<open>A model of the library functions\<close>

text \<open>
  To run the validators on concrete configurations, \<open>go_stdlib\<close> gives the four
  library functions a definition that follows the Go standard library on the inputs
  used below. No theorem about all configurations depends on it.
\<close>

subsection \<open>base64.StdEncoding.DecodeString\<close>

text \<open>
  The standard alphabet with mandatory \<open>=\<close> padding; carriage returns and line
  feeds are skipped; the unused low bits of a padded group are not checked. The input
  is read in groups of four sextets, \<open>dbuf\<close> holding those of the current group and
  \<open>si\<close> the index of the next byte.
\<close>

definition decodeMap :: "char \<Rightarrow> nat option" where
  "decodeMap c =
     (let n = (of_char c :: nat)
      in if 65 \<le> n \<and> n \<le> 90 then Some (n - 65)
         else if 97 \<le> n \<and> n \<le> 122 then Some (n - 71)
         else if 48 \<le> n \<and> n \<le> 57 then Some (n + 4)
         else if c = CHR ''+'' then Some 62
         else if c = CHR ''/'' then Some 63
         else None)"

definition CorruptInputError :: "nat \<Rightarrow> error" where
  "CorruptInputError n = ErrorString (''illegal base64 data at input byte '' @ fmt_d n)"

definition quantum_bytes :: "nat list \<Rightarrow> bytes" where
  "quantum_bytes dbuf =
     (let val = foldl (\<lambda>v d. v * 64 + d) 0 (take 4 (dbuf @ [0, 0, 0, 0]))
      in take (length dbuf - 1)
           [char_of (val div 65536), char_of (val div 256 mod 256), char_of (val mod 256)])"

definition isNewline :: "char \<Rightarrow> bool" where
  "isNewline c = (c = CHR 0x0A \<or> c = CHR 0x0D)"

definition end_of_padding :: "nat list \<Rightarrow> string \<Rightarrow> nat \<Rightarrow> error + bytes" where
  "end_of_padding dbuf src si =
     (if dropWhile isNewline src = [] then Inr (quantum_bytes dbuf)
      else Inl (CorruptInputError (si + length (takeWhile isNewline src))))"

fun decode_quanta :: "nat list \<Rightarrow> string \<Rightarrow> nat \<Rightarrow> error + bytes" where
  "decode_quanta dbuf [] si =
     (if dbuf = [] then Inr [] else Inl (CorruptInputError (si - length dbuf)))"
| "decode_quanta dbuf (c # src) si =
     (case decodeMap c of
        Some out \<Rightarrow>
          if length dbuf = 3
          then (case decode_quanta [] src (si + 1) of
                  Inl err \<Rightarrow> Inl err
                | Inr bs \<Rightarrow> Inr (quantum_bytes (dbuf @ [out]) @ bs))
          else decode_quanta (dbuf @ [out]) src (si + 1)
      | None \<Rightarrow>
          if isNewline c then decode_quanta dbuf src (si + 1)
          else if c = CHR ''='' then
            (if length dbuf < 2 then Inl (CorruptInputError si)
             else if length dbuf = 2 then
               (let si1 = si + 1 + length (takeWhile isNewline src)
                in case dropWhile isNewline src of
                     [] \<Rightarrow> Inl (CorruptInputError si1)
                   | c1 # src1 \<Rightarrow>
                       if c1 = CHR ''='' then end_of_padding dbuf src1 (si1 + 1)
                       else Inl (CorruptInputError (si1 - 1)))
             else end_of_padding dbuf src (si + 1))
          else Inl (CorruptInputError si))"

definition StdEncoding_DecodeString :: "string \<Rightarrow> error + bytes" where
  "StdEncoding_DecodeString s = decode_quanta [] s 0"

subsection \<open>url.Parse\<close>

text \<open>
  The scheme, the query, the opaque form, the authority and the path are split as
  \<open>net/url\<close> splits them, and the host is checked for its port and its characters.
  Percent-escapes are left as they are written, user information is dropped from the
  authority without being checked, and a bracketed host is taken up to its port.
\<close>

definition isLetter :: "char \<Rightarrow> bool" where
  "isLetter c = (let n = (of_char c :: nat) in (65 \<le> n \<and> n \<le> 90) \<or> (97 \<le> n \<and> n \<le> 122))"

definition isDigit :: "char \<Rightarrow> bool" where
  "isDigit c = (let n = (of_char c :: nat) in 48 \<le> n \<and> n \<le> 57)"

definition toLower :: "char \<Rightarrow> char" where
  "toLower c = (let n = (of_char c :: nat) in if 65 \<le> n \<and> n \<le> 90 then char_of (n + 32) else c)"

fun getScheme :: "string \<Rightarrow> nat \<Rightarrow> string \<Rightarrow> error + string \<times> string" where
  "getScheme rawURL i [] = Inr ('''', rawURL)"
| "getScheme rawURL i (c # cs) =
     (if isLetter c then getScheme rawURL (i + 1) cs
      else if isDigit c \<or> c = CHR ''+'' \<or> c = CHR ''-'' \<or> c = CHR ''.''
        then (if i = 0 then Inr ('''', rawURL) else getScheme rawURL (i + 1) cs)
      else if c = CHR '':''
        then (if i = 0 then Inl (ErrorString ''missing protocol scheme'')
              else Inr (take i rawURL, cs))
      else Inr ('''', rawURL))"

definition cut :: "char \<Rightarrow> string \<Rightarrow> string \<times> string" where
  "cut sep s = (takeWhile (\<lambda>c. c \<noteq> sep) s, drop 1 (dropWhile (\<lambda>c. c \<noteq> sep) s))"

definition lastIndex :: "char \<Rightarrow> string \<Rightarrow> nat option" where
  "lastIndex sep s =
     (if list_ex (\<lambda>c. c = sep) s
      then Some (length s - 1 - length (takeWhile (\<lambda>c. c \<noteq> sep) (rev s)))
      else None)"

definition hasPrefix :: "string \<Rightarrow> string \<Rightarrow> bool" where
  "hasPrefix s p = (take (length p) s = p)"

definition validOptionalPort :: "string \<Rightarrow> bool" where
  "validOptionalPort port =
     (case port of [] \<Rightarrow> True | c # ds \<Rightarrow> c = CHR '':'' \<and> list_all isDigit ds)"

definition hostByteAllowed :: "char \<Rightarrow> bool" where
  "hostByteAllowed c =
     (isLetter c \<or> isDigit c \<or> 128 \<le> (of_char c :: nat) \<or> c = CHR ''%''
      \<or> list_ex (\<lambda>d. d = c) (''-_.~!$&()*+,;=:[]<>'' @ [CHR 0x27, CHR 0x22]))"

definition parseHost :: "string \<Rightarrow> error + string" where
  "parseHost host =
     (let colonPort =
            (if hasPrefix host ''[''
             then (case lastIndex CHR '']'' host of
                     None \<Rightarrow> Inl (ErrorString (''missing '' @ [CHR 0x27] @ '']'' @ [CHR 0x27] @ '' in host''))
                   | Some i \<Rightarrow> Inr (drop (i + 1) host))
             else (case lastIndex CHR '':'' host of
                     None \<Rightarrow> Inr ''''
                   | Some i \<Rightarrow> Inr (drop i host)))
      in case colonPort of
           Inl err \<Rightarrow> Inl err
         | Inr port \<Rightarrow>
             if validOptionalPort port
             then (case filter (\<lambda>c. \<not> hostByteAllowed c) host of
                     [] \<Rightarrow> Inr host
                   | c # _ \<Rightarrow>
                       Inl (ErrorString (''invalid character '' @ fmt_q [c] @ '' in host name'')))
             else Inl (ErrorString (''invalid port '' @ fmt_q port @ '' after host'')))"

definition parseAuthority :: "string \<Rightarrow> error + string" where
  "parseAuthority authority =
     (case lastIndex CHR ''@'' authority of
        None \<Rightarrow> parseHost authority
      | Some i \<Rightarrow> parseHost (drop (i + 1) authority))"

definition empty_URL :: URL where
  "empty_URL =
     \<lparr>URL.Scheme = '''', Opaque = '''', URL.Host = '''', Path = '''', RawQuery = '''', Fragment = ''''\<rparr>"

definition parse :: "string \<Rightarrow> error + URL" where
  "parse rawURL =
     (if list_ex (\<lambda>c. (of_char c :: nat) < 0x20 \<or> c = CHR 0x7F) rawURL
      then Inl (ErrorString ''net/url: invalid control character in URL'')
      else if rawURL = ''*'' then Inr (empty_URL\<lparr>Path := ''*''\<rparr>)
      else case getScheme rawURL 0 rawURL of
        Inl err \<Rightarrow> Inl err
      | Inr (scheme, rest0) \<Rightarrow>
          (let url = empty_URL\<lparr>URL.Scheme := map toLower scheme, RawQuery := snd (cut CHR ''?'' rest0)\<rparr>;
               rest = fst (cut CHR ''?'' rest0)
           in if hasPrefix rest ''/'' then
                (if (URL.Scheme url = '''' \<and> hasPrefix rest ''///'') \<or> hasPrefix rest ''//'' = False
                 then Inr (url\<lparr>Path := rest\<rparr>)
                 else (let authority = takeWhile (\<lambda>c. c \<noteq> CHR ''/'') (drop 2 rest);
                           rest1 = dropWhile (\<lambda>c. c \<noteq> CHR ''/'') (drop 2 rest)
                       in case parseAuthority authority of
                            Inl err \<Rightarrow> Inl err
                          | Inr host \<Rightarrow> Inr (url\<lparr>URL.Host := host, Path := rest1\<rparr>)))
              else if URL.Scheme url = ''''
              then (if list_ex (\<lambda>c. c = CHR '':'') (fst (cut CHR ''/'' rest))
                    then Inl (ErrorString ''first path segment in URL cannot contain colon'')
                    else Inr (url\<lparr>Path := rest\<rparr>))
              else Inr (url\<lparr>Opaque := rest\<rparr>)))"

definition Parse :: "string \<Rightarrow> error + URL" where
  "Parse rawURL =
     (let u = fst (cut CHR ''#'' rawURL); frag = snd (cut CHR ''#'' rawURL)
      in case parse u of
           Inl err \<Rightarrow> Inl (ErrorString (''parse '' @ fmt_q u @ '': '' @ Error err))
         | Inr url \<Rightarrow> Inr (url\<lparr>Fragment := frag\<rparr>))"

subsection \<open>http.Cookie.String and os.Open\<close>

text \<open>
  \<open>String\<close> returns the empty string when the cookie's name is not a valid token,
  and \<open>name=\<close> for a cookie that has only a valid name. \<open>os.Open\<close> succeeds on the
  paths of the files that can be opened, given as a list.
\<close>

definition isToken :: "char \<Rightarrow> bool" where
  "isToken c =
     (isLetter c \<or> isDigit c \<or> list_ex (\<lambda>d. d = c) (''!#$%&*+-.^_`|~'' @ [CHR 0x27]))"

definition isCookieNameValid :: "string \<Rightarrow> bool" where
  "isCookieNameValid raw = (if raw = '''' then False else list_all isToken raw)"

definition Cookie_String_of_name :: "string \<Rightarrow> string" where
  "Cookie_String_of_name name = (if isCookieNameValid name then name @ ''='' else '''')"

definition Open :: "string list \<Rightarrow> string \<Rightarrow> error option" where
  "Open files name =
     (if list_ex (\<lambda>f. f = name) files then None
      else Some (ErrorString (''open '' @ name @ '': no such file or directory'')))"

definition go_stdlib :: "string list \<Rightarrow> stdlib" where
  "go_stdlib files =
     \<lparr>base64_DecodeString = StdEncoding_DecodeString,
      url_Parse = Parse,
      Cookie_String = Cookie_String_of_name,
      os_Open = Open files\<rparr>"

section \<open>LoadConfig\<close>

text \<open>
  \<open>LoadConfig\<close> reads the process environment through \<open>config.NewConfig\<close> and
  \<open>env.NewSource\<close>, and decodes what it read with a \<open>mapstructure\<close> decoder whose
  \<open>Result\<close> is \<open>&c\<close>: the decoder writes into \<open>c\<close>. Both libraries are
  parameters, collected in \<open>config_lib\<close>:
  \<^item> \<open>conf_Load\<close> is the error of \<open>conf.Load(env.NewSource())\<close> on an environment;
  \<^item> \<open>conf_Map\<close> is \<open>conf.Map()\<close>, the values that were loaded;
  \<^item> \<open>NewDecoder\<close> is the error of \<open>mapstructure.NewDecoder\<close>;
  \<^item> \<open>Decode\<close> is \<open>decoder.Decode\<close>: from the loaded values and \<open>c\<close> before the
    call to the error and \<open>c\<close> after it.
  The environment is the list of the variables with their values.
\<close>

type_synonym environ = "(string \<times> string) list"

record 'm config_lib =
  conf_Load :: "environ \<Rightarrow> error option"
  conf_Map :: "environ \<Rightarrow> 'm"
  NewDecoder :: "error option"
  Decode :: "'m \<Rightarrow> Configuration \<Rightarrow> error option \<times> Configuration"

definition LoadConfig :: "'m config_lib \<Rightarrow> environ \<Rightarrow> Configuration \<times> error option" where
  "LoadConfig lib env =
     (let c = DefaultProxyConfig
      in case conf_Load lib env of
           Some err \<Rightarrow> (c, Some err)
         | None \<Rightarrow>
             (case NewDecoder lib of
                Some err \<Rightarrow> (c, Some err)
              | None \<Rightarrow>
                  (case Decode lib (conf_Map lib env) c of
                     (Some err, c') \<Rightarrow> (c', Some err)
                   | (None, c') \<Rightarrow> (c', None))))"

section \<open>The override engine of the specification\<close>

text \<open>
  Modelled from the spec: the override/decode engine (sections 4.2, 6 and 9 of the
  specification), which in the repository is the work of \<open>go-micro/config\<close> with its
  \<open>env\<close> source and of \<open>mapstructure\<close>; neither is among the sources. The engine
  is a table from the recognized keys to the fields they override, each with its
  coercion. Every recognized key that is set is applied to \<open>c\<close>; a key that is not
  set leaves its field as it is; a key outside the table is ignored; a malformed
  value leaves its field as it is and fails the load.
\<close>

subsection \<open>The coercions\<close>

text \<open>
  Modelled from the spec: the units of a duration literal ("standard duration literal
  syntax, e.g. 60s, 3h"), in nanoseconds.
\<close>

definition unitMap :: "string \<Rightarrow> int option" where
  "unitMap u =
     (if u = ''ns'' then Some 1
      else if u = ''us'' then Some 1000
      else if u = ''ms'' then Some 1000000
      else if u = ''s'' then Some 1000000000
      else if u = ''m'' then Some 60000000000
      else if u = ''h'' then Some 3600000000000
      else None)"

text \<open>Modelled from the spec: the value of the decimal digits of a literal.\<close>

definition leadingInt :: "string \<Rightarrow> int" where
  "leadingInt ds = foldl (\<lambda>v c. 10 * v + (of_char c - 48)) 0 ds"

text \<open>Modelled from the spec: the descriptive error of a malformed duration.\<close>

definition invalid_duration :: "string \<Rightarrow> error" where
  "invalid_duration orig = ErrorString (''time: invalid duration '' @ fmt_q orig)"

text \<open>Modelled from the spec: the bytes of a unit, those that start no number.\<close>

definition isUnitByte :: "char \<Rightarrow> bool" where
  "isUnitByte c = (if c = CHR ''.'' then False else if isDigit c then False else True)"

text \<open>
  Modelled from the spec: the groups of a duration literal, each a decimal number,
  with or without a fraction, and a unit; \<open>d\<close> is the sum of the groups read so
  far, and a sum beyond 63 bits is malformed.
\<close>

function duration_groups :: "string \<Rightarrow> string \<Rightarrow> int \<Rightarrow> error + int" where
  "duration_groups orig s d =
     (if s = [] then Inr d
      else
        (let ds = takeWhile isDigit s;
             s1 = dropWhile isDigit s;
             fs = (case s1 of [] \<Rightarrow> [] | c # t \<Rightarrow> if c = CHR ''.'' then takeWhile isDigit t else []);
             s2 = (case s1 of [] \<Rightarrow> [] | c # t \<Rightarrow> if c = CHR ''.'' then dropWhile isDigit t else s1);
             u = takeWhile isUnitByte s2
         in if ds = [] \<and> fs = [] then Inl (invalid_duration orig)
            else if u = [] then Inl (ErrorString (''time: missing unit in duration '' @ fmt_q orig))
            else case unitMap u of
                   None \<Rightarrow>
                     Inl (ErrorString (''time: unknown unit '' @ fmt_q u @ '' in duration '' @ fmt_q orig))
                 | Some unit \<Rightarrow>
                     (let v = leadingInt ds * unit + (leadingInt fs * unit) div 10 ^ length fs
                      in if 2 ^ 63 < d + v then Inl (invalid_duration orig)
                         else duration_groups orig (dropWhile isUnitByte s2) (d + v))))"
  by pat_completeness auto

termination duration_groups
proof (relation "measure (\<lambda>(orig, s, d). length s)")
  show "wf (measure (\<lambda>(orig, s, d). length s))" by simp
next
  fix orig s :: string and d :: int and ds s1 fs s2 u :: string and unit v :: int
  assume s1: "s1 = dropWhile isDigit s"
    and s2: "s2 = (case s1 of [] \<Rightarrow> [] | c # t \<Rightarrow> if c = CHR ''.'' then dropWhile isDigit t else s1)"
    and u: "u = takeWhile isUnitByte s2" "u \<noteq> []"
  have "length s2 \<le> length s1"
    using s2 by (auto split: list.splits intro: le_SucI length_dropWhile_le)
  moreover have "length s1 \<le> length s"
    using s1 by (simp add: length_dropWhile_le)
  moreover have "length (dropWhile isUnitByte s2) < length s2"
    using u by (cases s2) (auto intro: le_imp_less_Suc length_dropWhile_le split: if_splits)
  ultimately show "((orig, dropWhile isUnitByte s2, d + v), (orig, s, d)) \<in> measure (\<lambda>(orig, s, d). length s)"
    by simp
qed

declare duration_groups.simps [simp del]

text \<open>
  Modelled from the spec: the coercion from a string to a duration: a sign, then
  the groups; \<open>0\<close> needs no unit.
\<close>

definition ParseDuration :: "string \<Rightarrow> error + Duration" where
  "ParseDuration s =
     (let neg = (take 1 s = ''-'');
          body = (if take 1 s = ''-'' \<or> take 1 s = ''+'' then drop 1 s else s)
      in if body = ''0'' then Inr 0
         else if body = '''' then Inl (invalid_duration s)
         else case duration_groups s body 0 of
                Inl err \<Rightarrow> Inl err
              | Inr d \<Rightarrow>
                  if neg then Inr (- d)
                  else if 2 ^ 63 - 1 < d then Inl (invalid_duration s)
                  else Inr d)"

text \<open>Modelled from the spec: the pieces of a string between separators, in order.\<close>

fun strings_Split :: "char \<Rightarrow> string \<Rightarrow> string list" where
  "strings_Split sep [] = [[]]"
| "strings_Split sep (c # cs) =
     (if c = sep then [] # strings_Split sep cs
      else case strings_Split sep cs of [] \<Rightarrow> [[c]] | x # xs \<Rightarrow> (c # x) # xs)"

text \<open>
  Modelled from the spec: the coercion from a string to an ordered list of strings,
  comma-separated.
\<close>

definition to_slice :: "string \<Rightarrow> string slice" where
  "to_slice s = (if s = '''' then Some [] else Some (strings_Split CHR '','' s))"

text \<open>
  Modelled from the spec: the value of a port, for which the specification names the
  keys and no syntax: a decimal number.
\<close>

definition to_int :: "string \<Rightarrow> error + int" where
  "to_int s =
     (if s \<noteq> '''' \<and> list_all isDigit s then Inr (leadingInt s)
      else Inl (ErrorString (''invalid number '' @ fmt_q s)))"

text \<open>
  Modelled from the spec: the value of a flag, for which the specification names the
  keys and no syntax: one of the words \<open>true\<close> and \<open>false\<close>.
\<close>

definition to_bool :: "string \<Rightarrow> error + bool" where
  "to_bool s =
     (if s = ''true'' then Inr True
      else if s = ''false'' then Inr False
      else Inl (ErrorString (''invalid boolean '' @ fmt_q s)))"

subsection \<open>The table of the recognized keys\<close>

text \<open>
  Modelled from the spec: a setter takes the value of a key and \<open>c\<close> and gives
  the error of the coercion or \<open>c\<close> with the field overridden. There is one kind
  of setter for each type of field.
\<close>

type_synonym setter = "string \<Rightarrow> Configuration \<Rightarrow> error + Configuration"

text \<open>Modelled from the spec: the setter of a string field.\<close>

definition set_string ::
    "((string \<Rightarrow> string) \<Rightarrow> Configuration \<Rightarrow> Configuration) \<Rightarrow> setter" where
  "set_string upd v c = Inr (upd (\<lambda>_. v) c)"

text \<open>Modelled from the spec: the setter of a list field.\<close>

definition set_slice ::
    "((string slice \<Rightarrow> string slice) \<Rightarrow> Configuration \<Rightarrow> Configuration) \<Rightarrow> setter" where
  "set_slice upd v c = Inr (upd (\<lambda>_. to_slice v) c)"

text \<open>Modelled from the spec: the setter of a duration field.\<close>

definition set_duration ::
    "((Duration \<Rightarrow> Duration) \<Rightarrow> Configuration \<Rightarrow> Configuration) \<Rightarrow> setter" where
  "set_duration upd v c =
     (case ParseDuration v of Inl err \<Rightarrow> Inl err | Inr d \<Rightarrow> Inr (upd (\<lambda>_. d) c))"

text \<open>Modelled from the spec: the setter of a port.\<close>

definition set_int ::
    "((int \<Rightarrow> int) \<Rightarrow> Configuration \<Rightarrow> Configuration) \<Rightarrow> setter" where
  "set_int upd v c =
     (case to_int v of Inl err \<Rightarrow> Inl err | Inr n \<Rightarrow> Inr (upd (\<lambda>_. n) c))"

text \<open>Modelled from the spec: the setter of a flag.\<close>

definition set_bool ::
    "((bool \<Rightarrow> bool) \<Rightarrow> Configuration \<Rightarrow> Configuration) \<Rightarrow> setter" where
  "set_bool upd v c =
     (case to_bool v of Inl err \<Rightarrow> Inl err | Inr b \<Rightarrow> Inr (upd (\<lambda>_. b) c))"

text \<open>
  Modelled from the spec: the table of section 6 of the specification, one line per
  recognized key, in the order of the specification, each key with the field its
  name spells.
\<close>

definition override_table :: "(string \<times> setter) list" where
  "override_table =
     [(''SESSION_COOKIE_NAME'', set_string (SessionConfig_update \<circ> CookieConfig_update \<circ> Name_update)),
      (''SESSION_COOKIE_SECRET'',
         set_string (SessionConfig_update \<circ> CookieConfig_update \<circ> CookieConfig.Secret_update)),
      (''SESSION_COOKIE_EXPIRE'', set_duration (SessionConfig_update \<circ> CookieConfig_update \<circ> Expire_update)),
      (''SESSION_COOKIE_DOMAIN'', set_string (SessionConfig_update \<circ> CookieConfig_update \<circ> Domain_update)),
      (''SESSION_COOKIE_HTTPONLY'', set_bool (SessionConfig_update \<circ> CookieConfig_update \<circ> HTTPOnly_update)),
      (''SESSION_TTL_LIFETIME'', set_duration (SessionConfig_update \<circ> TTLConfig_update \<circ> Lifetime_update)),
      (''SESSION_TTL_VALID'', set_duration (SessionConfig_update \<circ> TTLConfig_update \<circ> Valid_update)),
      (''SESSION_TTL_GRACEPERIOD'', set_duration (SessionConfig_update \<circ> TTLConfig_update \<circ> GracePeriod_update)),
      (''REQUESTSIGNER_KEY'', set_string (RequestSignerConfig_update \<circ> Key_update)),
      (''CLIENT_ID'', set_string (ClientConfig_update \<circ> ID_update)),
      (''CLIENT_SECRET'', set_string (ClientConfig_update \<circ> ClientConfig.Secret_update)),
      (''SERVER_PORT'', set_int (ServerConfig_update \<circ> ServerConfig.Port_update)),
      (''SERVER_TIMEOUT_SHUTDOWN'', set_duration (ServerConfig_update \<circ> TimeoutConfig_update \<circ> Shutdown_update)),
      (''SERVER_TIMEOUT_READ'', set_duration (ServerConfig_update \<circ> TimeoutConfig_update \<circ> Read_update)),
      (''SERVER_TIMEOUT_WRITE'', set_duration (ServerConfig_update \<circ> TimeoutConfig_update \<circ> Write_update)),
      (''METRICS_STATSD_HOST'', set_string (MetricsConfig_update \<circ> StatsdConfig_update \<circ> StatsdConfig.Host_update)),
      (''METRICS_STATSD_PORT'', set_int (MetricsConfig_update \<circ> StatsdConfig_update \<circ> StatsdConfig.Port_update)),
      (''LOGGING_ENABLE'', set_bool (LoggingConfig_update \<circ> Enable_update)),
      (''LOGGING_LEVEL'', set_string (LoggingConfig_update \<circ> Level_update)),
      (''UPSTREAM_DEFAULT_EMAIL_DOMAINS'',
         set_slice (UpstreamConfigs_update \<circ> DefaultConfig_update \<circ> EmailConfig_update \<circ> AllowedDomains_update)),
      (''UPSTREAM_DEFAULT_EMAIL_ADDRESSES'',
         set_slice (UpstreamConfigs_update \<circ> DefaultConfig_update \<circ> EmailConfig_update \<circ> AllowedAddresses_update)),
      (''UPSTREAM_DEFAULT_EMAIL_GROUPS'',
         set_slice (UpstreamConfigs_update \<circ> DefaultConfig_update \<circ> AllowedGroups_update)),
      (''UPSTREAM_DEFAULT_TIMEOUT'', set_duration (UpstreamConfigs_update \<circ> DefaultConfig_update \<circ> Timeout_update)),
      (''UPSTREAM_DEFAULT_TCP_RESET_DEADLINE'',
         set_duration (UpstreamConfigs_update \<circ> DefaultConfig_update \<circ> ResetDeadline_update)),
      (''UPSTREAM_DEFAULT_PROVIDER_SLUG'',
         set_string (UpstreamConfigs_update \<circ> DefaultConfig_update \<circ> DefaultConfig.ProviderSlug_update)),
      (''UPSTREAM_CONFIGS_FILE'', set_string (UpstreamConfigs_update \<circ> ConfigsFile_update)),
      (''UPSTREAM_SCHEME'', set_string (UpstreamConfigs_update \<circ> UpstreamConfigs.Scheme_update)),
      (''UPSTREAM_CLUSTER'', set_string (UpstreamConfigs_update \<circ> Cluster_update)),
      (''PROVIDER_TYPE'', set_string (ProviderConfig_update \<circ> ProviderType_update)),
      (''PROVIDER_URL_EXTERNAL'', set_string (ProviderConfig_update \<circ> ProviderURLExternal_update)),
      (''PROVIDER_URL_INTERNAL'', set_string (ProviderConfig_update \<circ> ProviderURLInternal_update)),
      (''PROVIDER_SLUG'', set_string (ProviderConfig_update \<circ> ProviderConfig.ProviderSlug_update)),
      (''PROVIDER_SCOPE'', set_string (ProviderConfig_update \<circ> Scope_update))]"


subsection \<open>The engine\<close>

text \<open>
  Modelled from the spec: the keys of the table are taken in order; a key that is
  set and well-formed overrides its field in \<open>c\<close>, a key that is set and
  malformed leaves its field and adds its error.
\<close>

fun apply_overrides ::
    "(string \<times> setter) list \<Rightarrow> (string \<rightharpoonup> string) \<Rightarrow> Configuration \<Rightarrow> error list \<times> Configuration" where
  "apply_overrides [] kv c = ([], c)"
| "apply_overrides ((k, set_field) # table) kv c =
     (case kv k of
        None \<Rightarrow> apply_overrides table kv c
      | Some v \<Rightarrow>
          (case set_field v c of
             Inl err \<Rightarrow>
               (case apply_overrides table kv c of
                  (errs, c') \<Rightarrow> (ErrorString (''error decoding '' @ k @ '': '' @ Error err) # errs, c'))
           | Inr c1 \<Rightarrow> apply_overrides table kv c1))"

text \<open>
  Modelled from the spec: the decode stage. It fails with the first of the errors,
  and, like the decoder of the source, which writes through \<open>Result\<close>, it leaves
  in \<open>c\<close> the overrides that were well-formed.
\<close>

definition override_Decode ::
    "(string \<rightharpoonup> string) \<Rightarrow> Configuration \<Rightarrow> error option \<times> Configuration" where
  "override_Decode kv c =
     (case apply_overrides override_table kv c of
        ([], c') \<Rightarrow> (None, c')
      | (err # _, c') \<Rightarrow> (Some err, c'))"

text \<open>
  Modelled from the spec: the engine as the libraries of \<open>LoadConfig\<close>. The
  source always loads, its values are those of the environment by key, and the
  decoder is always built.
\<close>

definition override_engine :: "(string \<rightharpoonup> string) config_lib" where
  "override_engine =
     \<lparr>conf_Load = (\<lambda>env. None),
      conf_Map = map_of,
      NewDecoder = None,
      Decode = override_Decode\<rparr>"


section \<open>The configurations of the repository's tests\<close>

text \<open>
  The two values of \<open>TestConfigValidate\<close>: the configuration that the test expects
  to pass, and the one without a port.
\<close>

definition passing_config :: Configuration where
  "passing_config =
     \<lparr>ServerConfig =
        \<lparr>ServerConfig.Port = 4180,
         TimeoutConfig = \<lparr>Write = 30 * Second, Read = 30 * Second, Shutdown = 30 * Second\<rparr>\<rparr>,
      ProviderConfig =
        \<lparr>ProviderType = ''sso'',
         ProviderConfig.ProviderSlug = ''google'',
         Scope = ''test'',
         ProviderURLExternal = ''https://sso-external.com'',
         ProviderURLInternal = ''https://sso-internal.com'',
         ProviderSkipAuthPreflight = ''''\<rparr>,
      ClientConfig = \<lparr>ID = ''foo-id'', ClientConfig.Secret = ''bar-secret''\<rparr>,
      SessionConfig =
        \<lparr>CookieConfig =
           \<lparr>Name = ''_sso_proxy'',
            CookieConfig.Secret = ''SMoPfinxNz0fuaGFPUr5vwQpvoG+CGcLd2nkxRVI+H4='',
            Expire = 168 * Hour,
            Domain = '''',
            Secure = True,
            HTTPOnly = True,
            decodedSecret = None\<rparr>,
         TTLConfig = \<lparr>Lifetime = 720 * Hour, Valid = 60 * Second, GracePeriod = 3 * Hour\<rparr>\<rparr>,
      UpstreamConfigs =
        \<lparr>DefaultConfig =
           \<lparr>EmailConfig = \<lparr>AllowedDomains = None, AllowedAddresses = None\<rparr>,
            AllowedGroups = None,
            DefaultConfig.ProviderSlug = '''',
            Timeout = 10 * Second,
            ResetDeadline = 60 * Second\<rparr>,
         ConfigsFile = '''',
         testTemplateVars = None,
         upstreamConfigs = None,
         Cluster = ''foo-cluster'',
         UpstreamConfigs.Scheme = ''https''\<rparr>,
      MetricsConfig = \<lparr>StatsdConfig = \<lparr>StatsdConfig.Port = 8125, StatsdConfig.Host = ''localhost''\<rparr>\<rparr>,
      LoggingConfig = \<lparr>Enable = True, Level = ''INFO''\<rparr>,
      RequestSignerConfig = \<lparr>Key = ''''\<rparr>\<rparr>"

definition missing_port_config :: Configuration where
  "missing_port_config =
     \<lparr>ServerConfig =
        \<lparr>ServerConfig.Port = 0,
         TimeoutConfig = \<lparr>Write = 30 * Second, Read = 30 * Second, Shutdown = 30 * Second\<rparr>\<rparr>,
      ProviderConfig =
        \<lparr>ProviderType = '''',
         ProviderConfig.ProviderSlug = '''',
         Scope = '''',
         ProviderURLExternal = '''',
         ProviderURLInternal = '''',
         ProviderSkipAuthPreflight = ''''\<rparr>,
      ClientConfig = \<lparr>ID = '''', ClientConfig.Secret = ''''\<rparr>,
      SessionConfig =
        \<lparr>CookieConfig =
           \<lparr>Name = '''',
            CookieConfig.Secret = '''',
            Expire = 0,
            Domain = '''',
            Secure = False,
            HTTPOnly = False,
            decodedSecret = None\<rparr>,
         TTLConfig = \<lparr>Lifetime = 0, Valid = 0, GracePeriod = 0\<rparr>\<rparr>,
      UpstreamConfigs =
        \<lparr>DefaultConfig =
           \<lparr>EmailConfig = \<lparr>AllowedDomains = None, AllowedAddresses = None\<rparr>,
            AllowedGroups = None,
            DefaultConfig.ProviderSlug = '''',
            Timeout = 0,
            ResetDeadline = 0\<rparr>,
         ConfigsFile = '''',
         testTemplateVars = None,
         upstreamConfigs = None,
         Cluster = '''',
         UpstreamConfigs.Scheme = ''''\<rparr>,
      MetricsConfig = \<lparr>StatsdConfig = \<lparr>StatsdConfig.Port = 0, StatsdConfig.Host = ''''\<rparr>\<rparr>,
      LoggingConfig = \<lparr>Enable = False, Level = ''''\<rparr>,
      RequestSignerConfig = \<lparr>Key = ''''\<rparr>\<rparr>"

section \<open>What a caller of CookieConfig.Validate can observe\<close>

text \<open>
  A caller that holds a \<open>CookieConfig\<close> sees its fields and, through
  \<open>decodedSecret\<close>, the bytes of the array the slice refers to.
\<close>

definition observable :: "store \<Rightarrow> CookieConfig \<Rightarrow> CookieConfig \<times> bytes option" where
  "observable h cc =
     (cc, case decodedSecret cc of None \<Rightarrow> None | Some a \<Rightarrow> Some (h ! a))"

definition in_store :: "store \<Rightarrow> CookieConfig \<Rightarrow> bool" where
  "in_store h cc = (case decodedSecret cc of None \<Rightarrow> True | Some a \<Rightarrow> a < length h)"

section \<open>Facts about the formatting and the library model\<close>

lemma fmt_q_empty: "fmt_q '''' = [CHR 0x22, CHR 0x22]"
  by (simp add: fmt_q_def)

lemmas base64_defs = StdEncoding_DecodeString_def decodeMap_def quantum_bytes_def isNewline_def
  end_of_padding_def CorruptInputError_def

lemmas url_defs = Parse_def parse_def cut_def hasPrefix_def isLetter_def isDigit_def toLower_def
  parseAuthority_def parseHost_def lastIndex_def validOptionalPort_def hostByteAllowed_def
  empty_URL_def fmt_q_def quote_byte_def

lemmas cookie_name_defs = Cookie_String_of_name_def isCookieNameValid_def isToken_def
  isLetter_def isDigit_def

lemma decode_passing_secret:
  "\<exists>bs. StdEncoding_DecodeString ''SMoPfinxNz0fuaGFPUr5vwQpvoG+CGcLd2nkxRVI+H4='' = Inr bs
        \<and> length bs = 32"
  by (simp add: base64_defs)

lemma decode_sixteen_bytes:
  "\<exists>bs. StdEncoding_DecodeString ''AAAAAAAAAAAAAAAAAAAAAA=='' = Inr bs \<and> length bs = 16"
  by (simp add: base64_defs)

lemma decode_not_base64:
  "StdEncoding_DecodeString ''not base64!'' =
     Inl (ErrorString ''illegal base64 data at input byte 3'')"
  by (simp add: base64_defs fmt_d.simps)

lemma Parse_external: "Parse ''https://sso-external.com'' =
    Inr (empty_URL\<lparr>URL.Scheme := ''https'', URL.Host := ''sso-external.com''\<rparr>)"
  by (simp add: url_defs)

lemma Parse_internal: "Parse ''https://sso-internal.com'' =
    Inr (empty_URL\<lparr>URL.Scheme := ''https'', URL.Host := ''sso-internal.com''\<rparr>)"
  by (simp add: url_defs)

lemma Parse_not_a_url: "Parse ''not-a-url'' = Inr (empty_URL\<lparr>Path := ''not-a-url''\<rparr>)"
  by (simp add: url_defs)

lemma Parse_bad_port: "Parse ''http://host:80a/'' =
    Inl (ErrorString (''parse '' @ fmt_q ''http://host:80a/'' @ '': invalid port ''
           @ fmt_q '':80a'' @ '' after host''))"
  by (simp add: url_defs)

section \<open>Facts about the validators\<close>

lemma run_error_independent_of_store:
  "fst (CookieConfig_Validate_run lib h cc) = CookieConfig_Validate lib cc"
  by (simp add: CookieConfig_Validate_def CookieConfig_Validate_run_def alloc_def Let_def
      split: sum.splits)

lemma CookieConfig_Validate_unfold:
  "CookieConfig_Validate lib cc =
     (if CookieConfig.Secret cc = ''''
      then Some (ErrorString ''no cookie.secret configured'')
      else case base64_DecodeString lib (CookieConfig.Secret cc) of
        Inl err \<Rightarrow>
          Some (ErrorString
             (''invalid cookie.secret configured; expected base64-encoded bytes, as from `openssl rand 32 -base64`: ''
                @ fmt_q (Error err)))
      | Inr bs \<Rightarrow>
          if length bs = 32 \<or> length bs = 64
          then (if Cookie_String lib (Name cc) = ''''
                then Some (ErrorString (''invalid cc.name: '' @ fmt_q (Name cc)))
                else None)
          else Some (ErrorString
                  (''Invalid value for cookie.secret; must decode to 32 or 64 bytes, but decoded to ''
                     @ fmt_d (length bs) @ '' bytes'')))"
  by (simp add: CookieConfig_Validate_def CookieConfig_Validate_run_def alloc_def Let_def
      split: sum.splits)

lemma ServerConfig_Validate_unfold:
  "ServerConfig_Validate sc =
     (if ServerConfig.Port sc = 0 then Some (ErrorString ''no server.port configured'') else None)"
  by (simp add: ServerConfig_Validate_def TimeoutConfig_Validate_def)

lemma passing_cookie_valid:
  "CookieConfig_Validate (go_stdlib []) (CookieConfig (SessionConfig passing_config)) = None"
  by (simp add: CookieConfig_Validate_unfold go_stdlib_def passing_config_def base64_defs
      cookie_name_defs)

lemma passing_provider_valid:
  "ProviderConfig_Validate (go_stdlib []) (ProviderConfig passing_config) = None"
  by (simp add: ProviderConfig_Validate_def check_url_external_def check_url_internal_def
      go_stdlib_def passing_config_def Parse_external Parse_internal empty_URL_def)

lemma passing_session_valid:
  "SessionConfig_Validate (go_stdlib []) (SessionConfig passing_config) = None"
  by (simp add: SessionConfig_Validate_def passing_cookie_valid TTLConfig_Validate_def)

text \<open>
  The first case of \<open>TestConfigValidate\<close>: the fully populated configuration passes.
\<close>

lemma passing_config_valid: "Configuration_Validate (go_stdlib []) passing_config = None"
proof -
  have "ServerConfig_Validate (ServerConfig passing_config) = None"
    by (simp add: ServerConfig_Validate_unfold passing_config_def)
  moreover have "ClientConfig_Validate (ClientConfig passing_config) = None"
    by (simp add: ClientConfig_Validate_def passing_config_def)
  moreover have "UpstreamConfigs_Validate (go_stdlib []) (UpstreamConfigs passing_config) = None"
    by (simp add: UpstreamConfigs_Validate_def passing_config_def)
  moreover have "MetricsConfig_Validate (MetricsConfig passing_config) = None"
    by (simp add: MetricsConfig_Validate_def StatsdConfig_Validate_def passing_config_def)
  ultimately show ?thesis
    by (simp add: Configuration_Validate_def passing_provider_valid passing_session_valid
        LoggingConfig_Validate_def RequestSignerConfig_Validate_def)
qed

text \<open>
  The label each failing section gets from \<open>Configuration.Validate\<close>. The sections
  before the failing one have passed. \<open>LoggingConfig.Validate\<close> and
  \<open>RequestSignerConfig.Validate\<close> never fail, so their labels are never seen.
\<close>

lemma section_labels:
  "(ServerConfig_Validate (ServerConfig c) = Some e \<longrightarrow>
      Configuration_Validate lib c = Some (WrapError ''invalid server config'' e))
 \<and> (ServerConfig_Validate (ServerConfig c) = None
      \<and> ProviderConfig_Validate lib (ProviderConfig c) = Some e \<longrightarrow>
      Configuration_Validate lib c = Some (WrapError ''invalid provider config'' e))
 \<and> (ServerConfig_Validate (ServerConfig c) = None
      \<and> ProviderConfig_Validate lib (ProviderConfig c) = None
      \<and> SessionConfig_Validate lib (SessionConfig c) = Some e \<longrightarrow>
      Configuration_Validate lib c = Some (WrapError ''invalid session config'' e))
 \<and> (ServerConfig_Validate (ServerConfig c) = None
      \<and> ProviderConfig_Validate lib (ProviderConfig c) = None
      \<and> SessionConfig_Validate lib (SessionConfig c) = None
      \<and> ClientConfig_Validate (ClientConfig c) = Some e \<longrightarrow>
      Configuration_Validate lib c = Some (WrapError ''invalid session config'' e))
 \<and> (ServerConfig_Validate (ServerConfig c) = None
      \<and> ProviderConfig_Validate lib (ProviderConfig c) = None
      \<and> SessionConfig_Validate lib (SessionConfig c) = None
      \<and> ClientConfig_Validate (ClientConfig c) = None
      \<and> UpstreamConfigs_Validate lib (UpstreamConfigs c) = Some e \<longrightarrow>
      Configuration_Validate lib c = Some (WrapError ''invalid upstream config'' e))
 \<and> (ServerConfig_Validate (ServerConfig c) = None
      \<and> ProviderConfig_Validate lib (ProviderConfig c) = None
      \<and> SessionConfig_Validate lib (SessionConfig c) = None
      \<and> ClientConfig_Validate (ClientConfig c) = None
      \<and> UpstreamConfigs_Validate lib (UpstreamConfigs c) = None
      \<and> MetricsConfig_Validate (MetricsConfig c) = Some e \<longrightarrow>
      Configuration_Validate lib c = Some (WrapError ''invalid metrics config'' e))
 \<and> LoggingConfig_Validate (LoggingConfig c) = None
 \<and> RequestSignerConfig_Validate (RequestSignerConfig c) = None"
  by (simp add: Configuration_Validate_def LoggingConfig_Validate_def
      RequestSignerConfig_Validate_def)

section \<open>The claims about the validators\<close>

text \<open>
  C1. The claim: when a section fails, \<open>Configuration.Validate\<close> returns
  "invalid <section> config: <message>" with the name of the section that failed; a
  \<open>ClientConfig\<close> failure carries the client section's name. The code labels a
  \<open>ClientConfig\<close> failure "invalid session config". Here the configuration that
  the repository's test expects to pass is given an empty client id: the server, the
  provider and the session section pass, the client section fails, and the message
  names the session section.
\<close>

theorem client_failure_is_labelled_session:
  "map_option Error
     (Configuration_Validate (go_stdlib [])
        (passing_config\<lparr>ClientConfig := \<lparr>ID = '''', ClientConfig.Secret = ''bar-secret''\<rparr>\<rparr>))
     = Some ''invalid session config: no client.id configured''
   \<and> SessionConfig_Validate (go_stdlib []) (SessionConfig passing_config) = None"
proof -
  let ?c = "passing_config\<lparr>ClientConfig := \<lparr>ID = '''', ClientConfig.Secret = ''bar-secret''\<rparr>\<rparr>"
  have "ServerConfig_Validate (ServerConfig ?c) = None"
    by (simp add: ServerConfig_Validate_unfold passing_config_def)
  moreover have "ProviderConfig_Validate (go_stdlib []) (ProviderConfig ?c) = None"
    using passing_provider_valid by simp
  moreover have "SessionConfig_Validate (go_stdlib []) (SessionConfig ?c) = None"
    using passing_session_valid by simp
  moreover have "ClientConfig_Validate (ClientConfig ?c) = Some (ErrorString ''no client.id configured'')"
    by (simp add: ClientConfig_Validate_def)
  ultimately have "Configuration_Validate (go_stdlib []) ?c =
      Some (WrapError ''invalid session config'' (ErrorString ''no client.id configured''))"
    by (simp add: Configuration_Validate_def)
  then show ?thesis
    using passing_session_valid by simp
qed

text \<open>
  C2. A configuration whose server port is zero fails with exactly the message
  "invalid server config: no server.port configured", whatever the library functions
  do and whatever the seven later sections hold: replacing all of them, and the
  library, leaves the result as it is.
\<close>

theorem port_zero_fails:
  assumes "ServerConfig.Port (ServerConfig c) = 0"
  shows "Configuration_Validate lib c =
           Some (WrapError ''invalid server config'' (ErrorString ''no server.port configured''))
       \<and> map_option Error (Configuration_Validate lib c) =
           Some ''invalid server config: no server.port configured''
       \<and> Configuration_Validate lib'
           (c\<lparr>ProviderConfig := p, ClientConfig := cl, SessionConfig := s, UpstreamConfigs := u,
              MetricsConfig := m, LoggingConfig := l, RequestSignerConfig := r\<rparr>) =
         Configuration_Validate lib c"
  using assms by (simp add: Configuration_Validate_def ServerConfig_Validate_unfold)

text \<open>
  The second case of \<open>TestConfigValidate\<close>, and the same configuration with every
  later section replaced by that of the passing configuration.
\<close>

theorem port_zero_fails_witness:
  "ServerConfig.Port (ServerConfig missing_port_config) = 0
   \<and> map_option Error (Configuration_Validate (go_stdlib []) missing_port_config) =
       Some ''invalid server config: no server.port configured''
   \<and> map_option Error (Configuration_Validate (go_stdlib [])
        (passing_config\<lparr>ServerConfig := ServerConfig missing_port_config\<rparr>)) =
       Some ''invalid server config: no server.port configured''"
proof -
  have h: "ServerConfig.Port (ServerConfig missing_port_config) = 0"
    by (simp add: missing_port_config_def)
  have h': "ServerConfig.Port
      (ServerConfig (passing_config\<lparr>ServerConfig := ServerConfig missing_port_config\<rparr>)) = 0"
    by (simp add: missing_port_config_def)
  show ?thesis
    using h port_zero_fails [OF h, of "go_stdlib []"] port_zero_fails [OF h', of "go_stdlib []"]
    by simp
qed

text \<open>
  C3. \<open>CookieConfig.Validate\<close> fails on an empty secret, on a secret that
  \<open>DecodeString\<close> rejects, and on a secret that decodes to a number of bytes other
  than 32 and 64; the third message carries that number in decimal; the three
  messages differ from one another.
\<close>

theorem cookie_secret_rejections:
  assumes "CookieConfig.Secret cc1 = ''''"
    and "CookieConfig.Secret cc2 \<noteq> ''''"
    and "base64_DecodeString lib (CookieConfig.Secret cc2) = Inl err"
    and "CookieConfig.Secret cc3 \<noteq> ''''"
    and "base64_DecodeString lib (CookieConfig.Secret cc3) = Inr bs"
    and "length bs \<noteq> 32" and "length bs \<noteq> 64"
  shows "CookieConfig_Validate lib cc1 = Some (ErrorString ''no cookie.secret configured'')
       \<and> CookieConfig_Validate lib cc2 =
           Some (ErrorString
             (''invalid cookie.secret configured; expected base64-encoded bytes, as from `openssl rand 32 -base64`: ''
                @ fmt_q (Error err)))
       \<and> CookieConfig_Validate lib cc3 =
           Some (ErrorString
             (''Invalid value for cookie.secret; must decode to 32 or 64 bytes, but decoded to ''
                @ fmt_d (length bs) @ '' bytes''))
       \<and> map_option Error (CookieConfig_Validate lib cc1) \<noteq> map_option Error (CookieConfig_Validate lib cc2)
       \<and> map_option Error (CookieConfig_Validate lib cc1) \<noteq> map_option Error (CookieConfig_Validate lib cc3)
       \<and> map_option Error (CookieConfig_Validate lib cc2) \<noteq> map_option Error (CookieConfig_Validate lib cc3)"
  using assms by (simp add: CookieConfig_Validate_unfold)

text \<open>
  The cookie section of the passing configuration with three secrets: none, one that
  is not base64, and one that decodes to 16 bytes.
\<close>

theorem cookie_secret_rejections_witness:
  "map_option Error (CookieConfig_Validate (go_stdlib [])
      (CookieConfig (SessionConfig passing_config)\<lparr>CookieConfig.Secret := ''''\<rparr>)) =
     Some ''no cookie.secret configured''
   \<and> map_option Error (CookieConfig_Validate (go_stdlib [])
      (CookieConfig (SessionConfig passing_config)\<lparr>CookieConfig.Secret := ''not base64!''\<rparr>)) =
     Some (''invalid cookie.secret configured; expected base64-encoded bytes, as from `openssl rand 32 -base64`: ''
            @ fmt_q ''illegal base64 data at input byte 3'')
   \<and> map_option Error (CookieConfig_Validate (go_stdlib [])
      (CookieConfig (SessionConfig passing_config)\<lparr>CookieConfig.Secret := ''AAAAAAAAAAAAAAAAAAAAAA==''\<rparr>)) =
     Some ''Invalid value for cookie.secret; must decode to 32 or 64 bytes, but decoded to 16 bytes''"
proof -
  let ?cc = "CookieConfig (SessionConfig passing_config)"
  obtain bs where bs: "StdEncoding_DecodeString ''AAAAAAAAAAAAAAAAAAAAAA=='' = Inr bs"
      "length bs = 16"
    using decode_sixteen_bytes by blast
  have "fmt_d 16 = ''16''"
    by (simp add: fmt_d.simps)
  then show ?thesis
    using cookie_secret_rejections [of "?cc\<lparr>CookieConfig.Secret := ''''\<rparr>"
        "?cc\<lparr>CookieConfig.Secret := ''not base64!''\<rparr>" "go_stdlib []"
        "ErrorString ''illegal base64 data at input byte 3''"
        "?cc\<lparr>CookieConfig.Secret := ''AAAAAAAAAAAAAAAAAAAAAA==''\<rparr>" bs]
      bs decode_not_base64
    by (simp add: go_stdlib_def)
qed

text \<open>
  C4. \<open>ProviderConfig.Validate\<close> succeeds only if both URLs are non-empty and parse
  to a URL with a scheme and a host. With a type and a slug, an empty external URL, an
  external URL without scheme or host, and an external URL that does not parse are
  each rejected, the first two with the messages below; the same holds for the
  internal URL once the external one has passed. The message for a URL that lacks a
  scheme or a host is not the message for an empty URL.
\<close>

theorem provider_urls_required:
  "(ProviderConfig_Validate lib pc = None \<longrightarrow>
      ProviderURLExternal pc \<noteq> '''' \<and> ProviderURLInternal pc \<noteq> ''''
      \<and> (\<exists>u. url_Parse lib (ProviderURLExternal pc) = Inr u
             \<and> URL.Scheme u \<noteq> '''' \<and> URL.Host u \<noteq> '''')
      \<and> (\<exists>u. url_Parse lib (ProviderURLInternal pc) = Inr u
             \<and> URL.Scheme u \<noteq> '''' \<and> URL.Host u \<noteq> ''''))
 \<and> (ProviderType pc \<noteq> '''' \<and> ProviderConfig.ProviderSlug pc \<noteq> '''' \<longrightarrow>
      (ProviderURLExternal pc = '''' \<longrightarrow>
         map_option Error (ProviderConfig_Validate lib pc) =
           Some (''invalid provider.url_external: '' @ [CHR 0x22, CHR 0x22]))
    \<and> (ProviderURLExternal pc \<noteq> '''' \<and> url_Parse lib (ProviderURLExternal pc) = Inr u
          \<and> (URL.Scheme u = '''' \<or> URL.Host u = '''') \<longrightarrow>
         map_option Error (ProviderConfig_Validate lib pc) =
           Some ''provider.url_external must include scheme and host'')
    \<and> (ProviderURLExternal pc \<noteq> '''' \<and> url_Parse lib (ProviderURLExternal pc) = Inl err \<longrightarrow>
         ProviderConfig_Validate lib pc = Some err)
    \<and> (check_url_external lib pc = None \<and> ProviderURLInternal pc = '''' \<longrightarrow>
         map_option Error (ProviderConfig_Validate lib pc) =
           Some (''invalid provider.url_internal: '' @ [CHR 0x22, CHR 0x22]))
    \<and> (check_url_external lib pc = None \<and> ProviderURLInternal pc \<noteq> ''''
          \<and> url_Parse lib (ProviderURLInternal pc) = Inr u
          \<and> (URL.Scheme u = '''' \<or> URL.Host u = '''') \<longrightarrow>
         map_option Error (ProviderConfig_Validate lib pc) =
           Some ''proxy provider url must include scheme and host'')
    \<and> (check_url_external lib pc = None \<and> ProviderURLInternal pc \<noteq> ''''
          \<and> url_Parse lib (ProviderURLInternal pc) = Inl err \<longrightarrow>
         map_option Error (ProviderConfig_Validate lib pc) =
           Some (''invalid pc.url_internal configured: '' @ fmt_q (Error err))))
 \<and> (map_option Error (ProviderConfig_Validate lib pc) =
        Some (''invalid provider.url_external: '' @ [CHR 0x22, CHR 0x22])
      \<and> map_option Error (ProviderConfig_Validate lib' pc') =
        Some ''provider.url_external must include scheme and host'' \<longrightarrow>
      ProviderConfig_Validate lib pc \<noteq> ProviderConfig_Validate lib' pc')
 \<and> (map_option Error (ProviderConfig_Validate lib pc) =
        Some (''invalid provider.url_internal: '' @ [CHR 0x22, CHR 0x22])
      \<and> map_option Error (ProviderConfig_Validate lib' pc') =
        Some ''proxy provider url must include scheme and host'' \<longrightarrow>
      ProviderConfig_Validate lib pc \<noteq> ProviderConfig_Validate lib' pc')"
proof -
  have ok: "ProviderConfig_Validate lib pc = None \<longrightarrow>
      ProviderURLExternal pc \<noteq> '''' \<and> ProviderURLInternal pc \<noteq> ''''
      \<and> (\<exists>u. url_Parse lib (ProviderURLExternal pc) = Inr u
             \<and> URL.Scheme u \<noteq> '''' \<and> URL.Host u \<noteq> '''')
      \<and> (\<exists>u. url_Parse lib (ProviderURLInternal pc) = Inr u
             \<and> URL.Scheme u \<noteq> '''' \<and> URL.Host u \<noteq> '''')"
    by (auto simp add: ProviderConfig_Validate_def check_url_external_def check_url_internal_def
        split: if_splits sum.splits option.splits)
  have ext: "ProviderType pc \<noteq> '''' \<and> ProviderConfig.ProviderSlug pc \<noteq> '''' \<longrightarrow>
      (ProviderURLExternal pc = '''' \<longrightarrow>
         map_option Error (ProviderConfig_Validate lib pc) =
           Some (''invalid provider.url_external: '' @ [CHR 0x22, CHR 0x22]))
    \<and> (ProviderURLExternal pc \<noteq> '''' \<and> url_Parse lib (ProviderURLExternal pc) = Inr u
          \<and> (URL.Scheme u = '''' \<or> URL.Host u = '''') \<longrightarrow>
         map_option Error (ProviderConfig_Validate lib pc) =
           Some ''provider.url_external must include scheme and host'')
    \<and> (ProviderURLExternal pc \<noteq> '''' \<and> url_Parse lib (ProviderURLExternal pc) = Inl err \<longrightarrow>
         ProviderConfig_Validate lib pc = Some err)"
    by (simp add: ProviderConfig_Validate_def check_url_external_def fmt_q_empty)
  have int: "ProviderType pc \<noteq> '''' \<and> ProviderConfig.ProviderSlug pc \<noteq> '''' \<longrightarrow>
      (check_url_external lib pc = None \<and> ProviderURLInternal pc = '''' \<longrightarrow>
         map_option Error (ProviderConfig_Validate lib pc) =
           Some (''invalid provider.url_internal: '' @ [CHR 0x22, CHR 0x22]))
    \<and> (check_url_external lib pc = None \<and> ProviderURLInternal pc \<noteq> ''''
          \<and> url_Parse lib (ProviderURLInternal pc) = Inr u
          \<and> (URL.Scheme u = '''' \<or> URL.Host u = '''') \<longrightarrow>
         map_option Error (ProviderConfig_Validate lib pc) =
           Some ''proxy provider url must include scheme and host'')
    \<and> (check_url_external lib pc = None \<and> ProviderURLInternal pc \<noteq> ''''
          \<and> url_Parse lib (ProviderURLInternal pc) = Inl err \<longrightarrow>
         map_option Error (ProviderConfig_Validate lib pc) =
           Some (''invalid pc.url_internal configured: '' @ fmt_q (Error err)))"
    by (simp add: ProviderConfig_Validate_def check_url_internal_def fmt_q_empty)
  have distinct_ext: "map_option Error (ProviderConfig_Validate lib pc) =
        Some (''invalid provider.url_external: '' @ [CHR 0x22, CHR 0x22])
      \<and> map_option Error (ProviderConfig_Validate lib' pc') =
        Some ''provider.url_external must include scheme and host'' \<longrightarrow>
      ProviderConfig_Validate lib pc \<noteq> ProviderConfig_Validate lib' pc'"
    by (cases "ProviderConfig_Validate lib pc"; cases "ProviderConfig_Validate lib' pc'") auto
  have distinct_int: "map_option Error (ProviderConfig_Validate lib pc) =
        Some (''invalid provider.url_internal: '' @ [CHR 0x22, CHR 0x22])
      \<and> map_option Error (ProviderConfig_Validate lib' pc') =
        Some ''proxy provider url must include scheme and host'' \<longrightarrow>
      ProviderConfig_Validate lib pc \<noteq> ProviderConfig_Validate lib' pc'"
    by (cases "ProviderConfig_Validate lib pc"; cases "ProviderConfig_Validate lib' pc'") auto
  from ok ext int distinct_ext distinct_int show ?thesis
    by blast
qed

text \<open>
  The provider section of the passing configuration, and the same section with the
  external URL \<open>not-a-url\<close>, with no external URL, with an external URL whose port
  is not a number, and with the internal URL \<open>not-a-url\<close>.
\<close>

theorem provider_urls_required_witness:
  "ProviderConfig_Validate (go_stdlib []) (ProviderConfig passing_config) = None
   \<and> map_option Error (ProviderConfig_Validate (go_stdlib [])
        (ProviderConfig passing_config\<lparr>ProviderURLExternal := ''not-a-url''\<rparr>)) =
       Some ''provider.url_external must include scheme and host''
   \<and> map_option Error (ProviderConfig_Validate (go_stdlib [])
        (ProviderConfig passing_config\<lparr>ProviderURLExternal := ''''\<rparr>)) =
       Some (''invalid provider.url_external: '' @ [CHR 0x22, CHR 0x22])
   \<and> map_option Error (ProviderConfig_Validate (go_stdlib [])
        (ProviderConfig passing_config\<lparr>ProviderURLExternal := ''http://host:80a/''\<rparr>)) =
       Some (''parse '' @ fmt_q ''http://host:80a/'' @ '': invalid port '' @ fmt_q '':80a''
              @ '' after host'')
   \<and> map_option Error (ProviderConfig_Validate (go_stdlib [])
        (ProviderConfig passing_config\<lparr>ProviderURLInternal := ''not-a-url''\<rparr>)) =
       Some ''proxy provider url must include scheme and host''
   \<and> ProviderConfig_Validate (go_stdlib [])
        (ProviderConfig passing_config\<lparr>ProviderURLExternal := ''''\<rparr>) \<noteq>
      ProviderConfig_Validate (go_stdlib [])
        (ProviderConfig passing_config\<lparr>ProviderURLExternal := ''not-a-url''\<rparr>)"
proof -
  let ?lib = "go_stdlib []"
  let ?pc = "ProviderConfig passing_config"
  have pc: "ProviderType ?pc \<noteq> ''''" "ProviderConfig.ProviderSlug ?pc \<noteq> ''''"
    "ProviderURLExternal ?pc = ''https://sso-external.com''"
    "ProviderURLInternal ?pc = ''https://sso-internal.com''"
    by (simp_all add: passing_config_def)
  have lib: "url_Parse ?lib = Parse"
    by (simp add: go_stdlib_def)
  have ext_ok: "check_url_external ?lib (?pc\<lparr>ProviderURLInternal := ''not-a-url''\<rparr>) = None"
    by (simp add: check_url_external_def pc lib Parse_external empty_URL_def)
  have a: "map_option Error (ProviderConfig_Validate ?lib (?pc\<lparr>ProviderURLExternal := ''not-a-url''\<rparr>)) =
       Some ''provider.url_external must include scheme and host''"
    using provider_urls_required [of ?lib "?pc\<lparr>ProviderURLExternal := ''not-a-url''\<rparr>"
        "empty_URL\<lparr>Path := ''not-a-url''\<rparr>"]
    by (simp add: pc lib Parse_not_a_url empty_URL_def)
  have b: "map_option Error (ProviderConfig_Validate ?lib (?pc\<lparr>ProviderURLExternal := ''''\<rparr>)) =
       Some (''invalid provider.url_external: '' @ [CHR 0x22, CHR 0x22])"
    using provider_urls_required [of ?lib "?pc\<lparr>ProviderURLExternal := ''''\<rparr>"]
    by (simp add: pc)
  have c: "map_option Error (ProviderConfig_Validate ?lib (?pc\<lparr>ProviderURLExternal := ''http://host:80a/''\<rparr>)) =
       Some (''parse '' @ fmt_q ''http://host:80a/'' @ '': invalid port '' @ fmt_q '':80a''
              @ '' after host'')"
    using provider_urls_required [of ?lib "?pc\<lparr>ProviderURLExternal := ''http://host:80a/''\<rparr>" _
        "ErrorString (''parse '' @ fmt_q ''http://host:80a/'' @ '': invalid port ''
           @ fmt_q '':80a'' @ '' after host'')"]
    by (simp add: pc lib Parse_bad_port)
  have d: "map_option Error (ProviderConfig_Validate ?lib (?pc\<lparr>ProviderURLInternal := ''not-a-url''\<rparr>)) =
       Some ''proxy provider url must include scheme and host''"
    using provider_urls_required [of ?lib "?pc\<lparr>ProviderURLInternal := ''not-a-url''\<rparr>"
        "empty_URL\<lparr>Path := ''not-a-url''\<rparr>"] ext_ok
    by (simp add: pc lib Parse_not_a_url empty_URL_def)
  have e: "ProviderConfig_Validate ?lib (?pc\<lparr>ProviderURLExternal := ''''\<rparr>) \<noteq>
      ProviderConfig_Validate ?lib (?pc\<lparr>ProviderURLExternal := ''not-a-url''\<rparr>)"
    using provider_urls_required [of ?lib "?pc\<lparr>ProviderURLExternal := ''''\<rparr>" _ _ ?lib
        "?pc\<lparr>ProviderURLExternal := ''not-a-url''\<rparr>"] a b
    by blast
  from passing_provider_valid a b c d e show ?thesis
    by blast
qed

text \<open>
  C5. The defaults do not pass validation: the server section passes and the
  provider section fails on the empty external URL, whatever the library functions
  do.
\<close>

theorem default_config_invalid:
  "Configuration_Validate lib DefaultProxyConfig =
     Some (WrapError ''invalid provider config''
            (ErrorString (''invalid provider.url_external: '' @ [CHR 0x22, CHR 0x22])))
   \<and> map_option Error (Configuration_Validate lib DefaultProxyConfig) =
     Some (''invalid provider config: invalid provider.url_external: '' @ [CHR 0x22, CHR 0x22])"
  by (simp add: Configuration_Validate_def ServerConfig_Validate_unfold ProviderConfig_Validate_def
      check_url_external_def DefaultProxyConfig_def fmt_q_empty)

text \<open>
  C7. The values of \<open>DefaultProxyConfig\<close>. The function takes no argument and reads
  no state, so it is a constant of the model: every call gives this one value. The
  durations are multiples of \<open>time.Second\<close> and \<open>time.Hour\<close>, in nanoseconds.
\<close>

theorem DefaultProxyConfig_values:
  "ServerConfig.Port (ServerConfig DefaultProxyConfig) = 4180
   \<and> Write (TimeoutConfig (ServerConfig DefaultProxyConfig)) = 30 * Second
   \<and> Read (TimeoutConfig (ServerConfig DefaultProxyConfig)) = 30 * Second
   \<and> Shutdown (TimeoutConfig (ServerConfig DefaultProxyConfig)) = 30 * Second
   \<and> Expire (CookieConfig (SessionConfig DefaultProxyConfig)) = 168 * Hour
   \<and> Lifetime (TTLConfig (SessionConfig DefaultProxyConfig)) = 720 * Hour
   \<and> Valid (TTLConfig (SessionConfig DefaultProxyConfig)) = 60 * Second
   \<and> GracePeriod (TTLConfig (SessionConfig DefaultProxyConfig)) = 3 * Hour
   \<and> UpstreamConfigs.Scheme (UpstreamConfigs DefaultProxyConfig) = ''https''
   \<and> Timeout (DefaultConfig (UpstreamConfigs DefaultProxyConfig)) = 10 * Second
   \<and> ResetDeadline (DefaultConfig (UpstreamConfigs DefaultProxyConfig)) = 60 * Second
   \<and> StatsdConfig.Host (StatsdConfig (MetricsConfig DefaultProxyConfig)) = ''localhost''
   \<and> StatsdConfig.Port (StatsdConfig (MetricsConfig DefaultProxyConfig)) = 8125
   \<and> Enable (LoggingConfig DefaultProxyConfig) = True
   \<and> Level (LoggingConfig DefaultProxyConfig) = ''INFO''
   \<and> Second = 1000000000 \<and> Hour = 3600000000000"
  by (simp add: DefaultProxyConfig_def Second_def Hour_def)

text \<open>
  C9. A call of \<open>CookieConfig.Validate\<close> leaves what its caller can observe as it
  was. The body runs on its own copy of the struct, from the store \<open>h\<close> to the store
  \<open>h'\<close> and the copy \<open>cc'\<close>: the store is only extended, so the caller's struct
  and the bytes behind its \<open>decodedSecret\<close> are as before; the copy differs from the
  caller's struct in \<open>decodedSecret\<close> at most; and when the validation succeeds, the
  copy's \<open>decodedSecret\<close> refers to the new array of the decoded bytes, which
  the caller's struct does not.
\<close>

theorem CookieConfig_Validate_frame:
  assumes "CookieConfig_Validate_run lib h cc = (err, h', cc')"
    and "in_store h cc"
  shows "observable h' cc = observable h cc
       \<and> take (length h) h' = h
       \<and> cc'\<lparr>decodedSecret := decodedSecret cc\<rparr> = cc
       \<and> err = CookieConfig_Validate lib cc
       \<and> (case err of
            Some e \<Rightarrow> True
          | None \<Rightarrow> decodedSecret cc' = Some (length h)
                    \<and> base64_DecodeString lib (CookieConfig.Secret cc) = Inr (h' ! length h)
                    \<and> decodedSecret cc \<noteq> Some (length h))"
proof -
  have ext: "take (length h) h' = h"
    using assms(1)
    by (auto simp add: CookieConfig_Validate_run_def alloc_def Let_def
        split: sum.splits if_splits)
  have "\<And>a. a < length h \<Longrightarrow> h' ! a = h ! a"
    by (metis ext nth_take)
  then have obs: "observable h' cc = observable h cc"
    using assms(2) by (simp add: observable_def in_store_def split: option.splits)
  have copy: "cc'\<lparr>decodedSecret := decodedSecret cc\<rparr> = cc"
    using assms(1)
    by (auto simp add: CookieConfig_Validate_run_def alloc_def Let_def
        split: sum.splits if_splits)
  have err: "err = CookieConfig_Validate lib cc"
    using assms(1) run_error_independent_of_store [of lib h cc] by simp
  have new: "case err of
            Some e \<Rightarrow> True
          | None \<Rightarrow> decodedSecret cc' = Some (length h)
                    \<and> base64_DecodeString lib (CookieConfig.Secret cc) = Inr (h' ! length h)
                    \<and> decodedSecret cc \<noteq> Some (length h)"
    using assms
    by (auto simp add: CookieConfig_Validate_run_def alloc_def Let_def in_store_def
        split: sum.splits if_splits option.splits)
  from obs ext copy err new show ?thesis
    by blast
qed

text \<open>
  The cookie section of the passing configuration, validated from the empty store:
  the call succeeds, the copy's \<open>decodedSecret\<close> refers to the 32 decoded bytes at
  address 0, and the caller's struct still has none.
\<close>

theorem CookieConfig_Validate_frame_witness:
  "in_store [] (CookieConfig (SessionConfig passing_config))
   \<and> fst (CookieConfig_Validate_run (go_stdlib []) [] (CookieConfig (SessionConfig passing_config))) = None
   \<and> decodedSecret (snd (snd (CookieConfig_Validate_run (go_stdlib []) []
         (CookieConfig (SessionConfig passing_config))))) = Some 0
   \<and> decodedSecret (CookieConfig (SessionConfig passing_config)) = None
   \<and> observable (fst (snd (CookieConfig_Validate_run (go_stdlib []) []
         (CookieConfig (SessionConfig passing_config)))))
       (CookieConfig (SessionConfig passing_config)) =
     observable [] (CookieConfig (SessionConfig passing_config))"
proof -
  let ?cc = "CookieConfig (SessionConfig passing_config)"
  let ?r = "CookieConfig_Validate_run (go_stdlib []) [] ?cc"
  have st: "in_store [] ?cc" and none: "decodedSecret ?cc = None"
    by (simp_all add: in_store_def passing_config_def)
  have run: "?r = (fst ?r, fst (snd ?r), snd (snd ?r))"
    by simp
  have ok: "fst ?r = None"
    using run_error_independent_of_store [of "go_stdlib []" "[]" ?cc] passing_cookie_valid
    by simp
  show ?thesis
    using CookieConfig_Validate_frame [OF run st] st none ok
    by simp
qed

text \<open>
  C10. \<open>CookieConfig.Validate\<close> checks the secret before the name. When the secret
  is empty, is rejected by \<open>DecodeString\<close> or decodes to a number of bytes other than
  32 and 64, the result is the error of the secret whatever the name \<open>n\<close> is and
  whatever \<open>String\<close> would say of it (\<open>f\<close>). The error of the name is returned only
  when the secret is non-empty and has decoded to 32 or 64 bytes.
\<close>

theorem cookie_secret_before_name:
  "(CookieConfig.Secret cc = '''' \<longrightarrow>
      CookieConfig_Validate (lib\<lparr>Cookie_String := f\<rparr>) (cc\<lparr>Name := n\<rparr>) =
        Some (ErrorString ''no cookie.secret configured''))
 \<and> (CookieConfig.Secret cc \<noteq> '''' \<and> base64_DecodeString lib (CookieConfig.Secret cc) = Inl err \<longrightarrow>
      CookieConfig_Validate (lib\<lparr>Cookie_String := f\<rparr>) (cc\<lparr>Name := n\<rparr>) =
        Some (ErrorString
          (''invalid cookie.secret configured; expected base64-encoded bytes, as from `openssl rand 32 -base64`: ''
             @ fmt_q (Error err))))
 \<and> (CookieConfig.Secret cc \<noteq> '''' \<and> base64_DecodeString lib (CookieConfig.Secret cc) = Inr bs
      \<and> length bs \<noteq> 32 \<and> length bs \<noteq> 64 \<longrightarrow>
      CookieConfig_Validate (lib\<lparr>Cookie_String := f\<rparr>) (cc\<lparr>Name := n\<rparr>) =
        Some (ErrorString
          (''Invalid value for cookie.secret; must decode to 32 or 64 bytes, but decoded to ''
             @ fmt_d (length bs) @ '' bytes'')))
 \<and> (CookieConfig_Validate lib cc = Some (ErrorString (''invalid cc.name: '' @ fmt_q (Name cc))) \<longrightarrow>
      CookieConfig.Secret cc \<noteq> ''''
      \<and> (\<exists>bs. base64_DecodeString lib (CookieConfig.Secret cc) = Inr bs
             \<and> (length bs = 32 \<or> length bs = 64))
      \<and> Cookie_String lib (Name cc) = '''')
 \<and> (CookieConfig.Secret cc \<noteq> '''' \<and> base64_DecodeString lib (CookieConfig.Secret cc) = Inr bs
      \<and> (length bs = 32 \<or> length bs = 64) \<longrightarrow>
      CookieConfig_Validate lib cc =
        (if Cookie_String lib (Name cc) = ''''
         then Some (ErrorString (''invalid cc.name: '' @ fmt_q (Name cc))) else None))"
  by (auto simp add: CookieConfig_Validate_unfold split: sum.splits if_splits)

text \<open>
  A name with a space, which is not a valid cookie name: with the secret of the
  passing configuration the name is rejected; with no secret and with a secret of 16
  bytes the error is that of the secret.
\<close>

theorem cookie_secret_before_name_witness:
  "map_option Error (CookieConfig_Validate (go_stdlib [])
      (CookieConfig (SessionConfig passing_config)\<lparr>Name := ''bad name''\<rparr>)) =
     Some (''invalid cc.name: '' @ fmt_q ''bad name'')
   \<and> map_option Error (CookieConfig_Validate (go_stdlib [])
      (CookieConfig (SessionConfig passing_config)
         \<lparr>CookieConfig.Secret := '''', Name := ''bad name''\<rparr>)) =
     Some ''no cookie.secret configured''
   \<and> map_option Error (CookieConfig_Validate (go_stdlib [])
      (CookieConfig (SessionConfig passing_config)
         \<lparr>CookieConfig.Secret := ''AAAAAAAAAAAAAAAAAAAAAA=='', Name := ''bad name''\<rparr>)) =
     Some ''Invalid value for cookie.secret; must decode to 32 or 64 bytes, but decoded to 16 bytes''"
proof -
  let ?lib = "go_stdlib []"
  let ?cc = "CookieConfig (SessionConfig passing_config)"
  have lib: "?lib\<lparr>Cookie_String := Cookie_String_of_name\<rparr> = ?lib"
      "base64_DecodeString ?lib = StdEncoding_DecodeString"
      "Cookie_String ?lib = Cookie_String_of_name"
    by (simp_all add: go_stdlib_def)
  have secret: "CookieConfig.Secret ?cc = ''SMoPfinxNz0fuaGFPUr5vwQpvoG+CGcLd2nkxRVI+H4=''"
    by (simp add: passing_config_def)
  obtain bs32 where bs32: "StdEncoding_DecodeString ''SMoPfinxNz0fuaGFPUr5vwQpvoG+CGcLd2nkxRVI+H4='' = Inr bs32"
      "length bs32 = 32"
    using decode_passing_secret by blast
  obtain bs16 where bs16: "StdEncoding_DecodeString ''AAAAAAAAAAAAAAAAAAAAAA=='' = Inr bs16"
      "length bs16 = 16"
    using decode_sixteen_bytes by blast
  have name: "Cookie_String_of_name ''bad name'' = ''''"
    by (simp add: cookie_name_defs)
  have sixteen: "fmt_d 16 = ''16''"
    by (simp add: fmt_d.simps)
  have a: "map_option Error (CookieConfig_Validate ?lib (?cc\<lparr>Name := ''bad name''\<rparr>)) =
     Some (''invalid cc.name: '' @ fmt_q ''bad name'')"
    using cookie_secret_before_name [where cc = "?cc\<lparr>Name := ''bad name''\<rparr>" and lib = ?lib and bs = bs32]
    by (simp add: lib secret bs32 name)
  have b: "map_option Error (CookieConfig_Validate ?lib
      (?cc\<lparr>CookieConfig.Secret := '''', Name := ''bad name''\<rparr>)) =
     Some ''no cookie.secret configured''"
    using cookie_secret_before_name [where cc = "?cc\<lparr>CookieConfig.Secret := ''''\<rparr>" and lib = ?lib
        and f = Cookie_String_of_name and n = "''bad name''"]
    by (simp add: lib)
  have c: "map_option Error (CookieConfig_Validate ?lib
      (?cc\<lparr>CookieConfig.Secret := ''AAAAAAAAAAAAAAAAAAAAAA=='', Name := ''bad name''\<rparr>)) =
     Some ''Invalid value for cookie.secret; must decode to 32 or 64 bytes, but decoded to 16 bytes''"
    using cookie_secret_before_name [where cc = "?cc\<lparr>CookieConfig.Secret := ''AAAAAAAAAAAAAAAAAAAAAA==''\<rparr>"
        and lib = ?lib and f = Cookie_String_of_name and n = "''bad name''" and bs = bs16]
    by (simp add: lib bs16 sixteen)
  from a b c show ?thesis
    by blast
qed

section \<open>Facts about LoadConfig and the override engine\<close>

lemma LoadConfig_unfold:
  "LoadConfig lib env =
     (case conf_Load lib env of
        Some err \<Rightarrow> (DefaultProxyConfig, Some err)
      | None \<Rightarrow>
          (case NewDecoder lib of
             Some err \<Rightarrow> (DefaultProxyConfig, Some err)
           | None \<Rightarrow>
               (snd (Decode lib (conf_Map lib env) DefaultProxyConfig),
                fst (Decode lib (conf_Map lib env) DefaultProxyConfig))))"
  by (simp add: LoadConfig_def Let_def split: option.splits prod.splits)



lemma LoadConfig_override_engine:
  "LoadConfig override_engine env =
     (snd (override_Decode (map_of env) DefaultProxyConfig),
      fst (override_Decode (map_of env) DefaultProxyConfig))"
  by (simp add: LoadConfig_unfold override_engine_def)

lemmas duration_defs = ParseDuration_def duration_groups.simps isDigit_def isUnitByte_def
  unitMap_def leadingInt_def invalid_duration_def Let_def

lemmas setter_defs = set_string_def set_slice_def set_duration_def set_int_def set_bool_def

lemma ParseDuration_60s: "ParseDuration ''60s'' = Inr (60 * Second)"
  by (simp add: duration_defs Second_def)

lemma ParseDuration_bogus:
  "ParseDuration ''bogus'' = Inl (ErrorString (''time: invalid duration '' @ fmt_q ''bogus''))"
  by (simp add: duration_defs)

text \<open>
  The three cases of \<open>TestEnvironmentOverridesConfiguration\<close> on the engine: each
  sets the fields it names and leaves the others at their defaults.
\<close>

lemma test_cookie_name_override:
  "LoadConfig override_engine [(''SESSION_COOKIE_NAME'', ''foo_cookie_name'')] =
     (DefaultProxyConfig
        \<lparr>SessionConfig := (SessionConfig DefaultProxyConfig)
           \<lparr>CookieConfig := (CookieConfig (SessionConfig DefaultProxyConfig))
              \<lparr>Name := ''foo_cookie_name''\<rparr>\<rparr>\<rparr>,
      None)"
  by (simp add: LoadConfig_override_engine override_Decode_def override_table_def setter_defs)

lemma test_timeout_override:
  "LoadConfig override_engine
     [(''SERVER_TIMEOUT_WRITE'', ''60s''), (''SERVER_TIMEOUT_READ'', ''60s'')] =
     (DefaultProxyConfig
        \<lparr>ServerConfig := (ServerConfig DefaultProxyConfig)
           \<lparr>TimeoutConfig := (TimeoutConfig (ServerConfig DefaultProxyConfig))
              \<lparr>Write := 60 * Second, Read := 60 * Second\<rparr>\<rparr>\<rparr>,
      None)"
  by (simp add: LoadConfig_override_engine override_Decode_def override_table_def setter_defs
      ParseDuration_60s)

lemma test_provider_slug_override:
  "LoadConfig override_engine [(''PROVIDER_SLUG'', ''foo-slug'')] =
     (DefaultProxyConfig
        \<lparr>ProviderConfig := (ProviderConfig DefaultProxyConfig)
           \<lparr>ProviderConfig.ProviderSlug := ''foo-slug''\<rparr>\<rparr>,
      None)"
  by (simp add: LoadConfig_override_engine override_Decode_def override_table_def setter_defs)

lemma load_partial_override:
  "LoadConfig override_engine
     [(''SESSION_COOKIE_NAME'', ''foo_cookie_name''), (''SERVER_TIMEOUT_WRITE'', ''bogus'')] =
     (DefaultProxyConfig
        \<lparr>SessionConfig := (SessionConfig DefaultProxyConfig)
           \<lparr>CookieConfig := (CookieConfig (SessionConfig DefaultProxyConfig))
              \<lparr>Name := ''foo_cookie_name''\<rparr>\<rparr>\<rparr>,
      Some (ErrorString (''error decoding SERVER_TIMEOUT_WRITE: time: invalid duration ''
              @ fmt_q ''bogus'')))"
  by (simp add: LoadConfig_override_engine override_Decode_def override_table_def setter_defs
      ParseDuration_bogus)

section \<open>The claims about LoadConfig\<close>

text \<open>
  C6, as the claim states it, fails: on an environment that sets a cookie name and a
  write timeout that is not a duration, the decode fails and the Configuration that
  \<open>LoadConfig\<close> returns with the error carries the cookie name of the environment,
  not the default one. The decoder writes into \<open>c\<close> through \<open>Result: &c\<close>, and
  \<open>LoadConfig\<close> returns \<open>c\<close> as the decoder left it.
\<close>

theorem LoadConfig_decode_failure_counterexample:
  "snd (LoadConfig override_engine
          [(''SESSION_COOKIE_NAME'', ''foo_cookie_name''), (''SERVER_TIMEOUT_WRITE'', ''bogus'')]) =
     Some (ErrorString (''error decoding SERVER_TIMEOUT_WRITE: time: invalid duration ''
             @ fmt_q ''bogus''))
   \<and> Name (CookieConfig (SessionConfig (fst (LoadConfig override_engine
          [(''SESSION_COOKIE_NAME'', ''foo_cookie_name''), (''SERVER_TIMEOUT_WRITE'', ''bogus'')])))) =
     ''foo_cookie_name''
   \<and> Name (CookieConfig (SessionConfig DefaultProxyConfig)) = ''_sso_proxy''
   \<and> fst (LoadConfig override_engine
          [(''SESSION_COOKIE_NAME'', ''foo_cookie_name''), (''SERVER_TIMEOUT_WRITE'', ''bogus'')]) \<noteq>
     DefaultProxyConfig"
proof -
  let ?env = "[(''SESSION_COOKIE_NAME'', ''foo_cookie_name''), (''SERVER_TIMEOUT_WRITE'', ''bogus'')]"
  have name: "Name (CookieConfig (SessionConfig DefaultProxyConfig)) = ''_sso_proxy''"
    by (simp add: DefaultProxyConfig_def)
  have "Name (CookieConfig (SessionConfig (fst (LoadConfig override_engine
          [(''SESSION_COOKIE_NAME'', ''foo_cookie_name''), (''SERVER_TIMEOUT_WRITE'', ''bogus'')])))) =
     ''foo_cookie_name''"
    by (simp add: load_partial_override)
  then have foo: "Name (CookieConfig (SessionConfig (fst (LoadConfig override_engine ?env)))) =
     ''foo_cookie_name''" .
  have differs: "fst (LoadConfig override_engine ?env) \<noteq> DefaultProxyConfig"
  proof
    assume "fst (LoadConfig override_engine ?env) = DefaultProxyConfig"
    then have "Name (CookieConfig (SessionConfig (fst (LoadConfig override_engine ?env)))) =
        Name (CookieConfig (SessionConfig DefaultProxyConfig))"
      by simp
    then show False
      using foo name by simp
  qed
  have err: "snd (LoadConfig override_engine ?env) =
     Some (ErrorString (''error decoding SERVER_TIMEOUT_WRITE: time: invalid duration ''
             @ fmt_q ''bogus''))"
    by (simp add: load_partial_override)
  from err foo name differs show ?thesis
    by blast
qed

text \<open>
  C6, amended. When \<open>conf.Load\<close> or \<open>mapstructure.NewDecoder\<close> fails,
  \<open>LoadConfig\<close> returns the error with \<open>DefaultProxyConfig()\<close> unchanged. Once
  both have succeeded, \<open>LoadConfig\<close> returns the error of \<open>decoder.Decode\<close> (or
  \<open>nil\<close>) with the Configuration as the decoder left it: the defaults with
  whatever the decoder wrote. This holds for every library.
\<close>

theorem LoadConfig_returns_decoder_state:
  "(conf_Load lib env = Some err \<longrightarrow> LoadConfig lib env = (DefaultProxyConfig, Some err))
 \<and> (conf_Load lib env = None \<and> NewDecoder lib = Some err \<longrightarrow>
      LoadConfig lib env = (DefaultProxyConfig, Some err))
 \<and> (conf_Load lib env = None \<and> NewDecoder lib = None \<longrightarrow>
      LoadConfig lib env =
        (snd (Decode lib (conf_Map lib env) DefaultProxyConfig),
         fst (Decode lib (conf_Map lib env) DefaultProxyConfig)))"
  by (simp add: LoadConfig_unfold)

text \<open>
  The engine with a source that cannot be loaded, with a decoder that cannot be
  built, and as it is on the environment of the counterexample.
\<close>

theorem LoadConfig_returns_decoder_state_witness:
  "LoadConfig (override_engine\<lparr>conf_Load := (\<lambda>env. Some (ErrorString ''no source''))\<rparr>)
      [(''SESSION_COOKIE_NAME'', ''foo_cookie_name'')] =
     (DefaultProxyConfig, Some (ErrorString ''no source''))
   \<and> LoadConfig (override_engine\<lparr>NewDecoder := Some (ErrorString ''result must be a pointer'')\<rparr>)
      [(''SESSION_COOKIE_NAME'', ''foo_cookie_name'')] =
     (DefaultProxyConfig, Some (ErrorString ''result must be a pointer''))
   \<and> LoadConfig override_engine
      [(''SESSION_COOKIE_NAME'', ''foo_cookie_name''), (''SERVER_TIMEOUT_WRITE'', ''bogus'')] =
     (snd (override_Decode
             (map_of [(''SESSION_COOKIE_NAME'', ''foo_cookie_name''), (''SERVER_TIMEOUT_WRITE'', ''bogus'')])
             DefaultProxyConfig),
      fst (override_Decode
             (map_of [(''SESSION_COOKIE_NAME'', ''foo_cookie_name''), (''SERVER_TIMEOUT_WRITE'', ''bogus'')])
             DefaultProxyConfig))"
proof -
  let ?env = "[(''SESSION_COOKIE_NAME'', ''foo_cookie_name'')]"
  let ?bad = "[(''SESSION_COOKIE_NAME'', ''foo_cookie_name''), (''SERVER_TIMEOUT_WRITE'', ''bogus'')]"
  have a: "LoadConfig (override_engine\<lparr>conf_Load := (\<lambda>env. Some (ErrorString ''no source''))\<rparr>) ?env =
     (DefaultProxyConfig, Some (ErrorString ''no source''))"
    using LoadConfig_returns_decoder_state
      [where lib = "override_engine\<lparr>conf_Load := (\<lambda>env. Some (ErrorString ''no source''))\<rparr>"
         and env = ?env and err = "ErrorString ''no source''"]
    by simp
  have b: "LoadConfig (override_engine\<lparr>NewDecoder := Some (ErrorString ''result must be a pointer'')\<rparr>) ?env =
     (DefaultProxyConfig, Some (ErrorString ''result must be a pointer''))"
    using LoadConfig_returns_decoder_state
      [where lib = "override_engine\<lparr>NewDecoder := Some (ErrorString ''result must be a pointer'')\<rparr>"
         and env = ?env and err = "ErrorString ''result must be a pointer''"]
    by (simp add: override_engine_def)
  have c: "LoadConfig override_engine ?bad =
     (snd (override_Decode (map_of ?bad) DefaultProxyConfig),
      fst (override_Decode (map_of ?bad) DefaultProxyConfig))"
    using LoadConfig_returns_decoder_state [where lib = override_engine and env = ?bad]
    by (simp add: override_engine_def)
  from a b c show ?thesis
    by blast
qed



end
